theory Spec2Isabelle
  imports Complex_Main "HOL-Library.Sublist"
begin

section \<open>Python values and strings\<close>

text \<open>
  The pipeline of \<^verbatim>\<open>extract_skills.py\<close> handles what \<^verbatim>\<open>response.json()\<close> returns:
  arbitrary JSON. A value is \<^verbatim>\<open>None\<close>, a boolean, a number (by its exact numeric value),
  a string, a list or a dict (an association list, looked up by first match).
  A \<open>char\<close> stands for one code point of a Python \<^verbatim>\<open>str\<close>, below 256.
\<close>

datatype json =
    JNull
  | JBool bool
  | JNum rat
  | JStr string
  | JArr "json list"
  | JObj "(string \<times> json) list"

text \<open>
  The exceptions of the two source files. \<open>HTTPError\<close>, \<open>JSONDecodeError\<close> and
  \<open>ConnectionFailure\<close> are the subclasses of \<^verbatim>\<open>requests.exceptions.RequestException\<close>
  that \<^verbatim>\<open>requests.get\<close>, \<^verbatim>\<open>raise_for_status\<close> and \<^verbatim>\<open>response.json\<close> raise;
  \<open>MaxRetriesExceeded\<close> is the plain \<^verbatim>\<open>Exception\<close> of line 42 of \<^verbatim>\<open>utils.py\<close>.
  \<open>ValueError\<close> and \<open>OverflowError\<close> are what \<^verbatim>\<open>time.sleep\<close> raises for a negative and
  for a too large length, and what arithmetic on Python numbers can raise.
\<close>

datatype exn =
    HTTPError nat
  | JSONDecodeError
  | ConnectionFailure string
  | RateLimitError
  | MaxRetriesExceeded
  | KeyError string
  | TypeError
  | IndexError
  | AttributeError
  | ValueError
  | OverflowError
  | OtherError string

fun is_request_exception :: "exn \<Rightarrow> bool" where
  "is_request_exception (HTTPError _) = True"
| "is_request_exception JSONDecodeError = True"
| "is_request_exception (ConnectionFailure _) = True"
| "is_request_exception _ = False"

text \<open>Truth value of a Python value (\<^verbatim>\<open>if not job_listings\<close>).\<close>

fun truthy :: "json \<Rightarrow> bool" where
  "truthy JNull = False"
| "truthy (JBool b) = b"
| "truthy (JNum n) = (n \<noteq> 0)"
| "truthy (JStr s) = (s \<noteq> [])"
| "truthy (JArr xs) = (xs \<noteq> [])"
| "truthy (JObj kvs) = (kvs \<noteq> [])"

text \<open>
  \<^verbatim>\<open>for job in job_listings\<close>: a list yields its elements, a dict its keys, a string its
  characters; anything else raises \<^verbatim>\<open>TypeError\<close>.
\<close>

fun py_iter :: "json \<Rightarrow> exn + json list" where
  "py_iter (JArr xs) = Inr xs"
| "py_iter (JObj kvs) = Inr (map (\<lambda>kv. JStr (fst kv)) kvs)"
| "py_iter (JStr s) = Inr (map (\<lambda>c. JStr [c]) s)"
| "py_iter _ = Inl TypeError"

text \<open>\<^verbatim>\<open>job["job_id"]\<close>: only a dict can be indexed by a string.\<close>

fun getitem :: "json \<Rightarrow> string \<Rightarrow> exn + json" where
  "getitem (JObj kvs) k = (case map_of kvs k of None \<Rightarrow> Inl (KeyError k) | Some v \<Rightarrow> Inr v)"
| "getitem _ k = Inl TypeError"

text \<open>\<^verbatim>\<open>d.get(key, default)\<close> on a dict.\<close>

definition dict_get :: "(string \<times> json) list \<Rightarrow> string \<Rightarrow> json \<Rightarrow> json" where
  "dict_get kvs k dflt = (case map_of kvs k of None \<Rightarrow> dflt | Some v \<Rightarrow> v)"

text \<open>
  Membership in a Python set hashes the value: lists and dicts are unhashable
  (\<^verbatim>\<open>TypeError\<close>), and \<^verbatim>\<open>True\<close> and \<^verbatim>\<open>False\<close> are the same set elements as 1 and 0.
  The in-memory dedupe set holds the values \<open>set_key\<close> returns.
\<close>

fun hashable :: "json \<Rightarrow> bool" where
  "hashable (JArr _) = False"
| "hashable (JObj _) = False"
| "hashable _ = True"

fun set_key :: "json \<Rightarrow> json" where
  "set_key (JBool b) = JNum (if b then 1 else 0)"
| "set_key v = v"

subsection \<open>Strings\<close>

abbreviation LF :: char where "LF \<equiv> CHR 0x0A"
abbreviation CR :: char where "CR \<equiv> CHR 0x0D"

text \<open>The characters below 256 for which \<^verbatim>\<open>str.isspace\<close> holds.\<close>

definition whitespace :: "char list" where
  "whitespace = [CHR 0x09, CHR 0x0A, CHR 0x0B, CHR 0x0C, CHR 0x0D, CHR 0x1C, CHR 0x1D,
                 CHR 0x1E, CHR 0x1F, CHR 0x20, CHR 0x85, CHR 0xA0]"

definition is_space :: "char \<Rightarrow> bool" where
  "is_space c = (c \<in> set whitespace)"

text \<open>\<^verbatim>\<open>s.strip()\<close>.\<close>

definition py_strip :: "string \<Rightarrow> string" where
  "py_strip s = rev (dropWhile is_space (rev (dropWhile is_space s)))"

text \<open>\<^verbatim>\<open>s.split(sep)\<close> for a one-character separator.\<close>

fun py_split :: "char \<Rightarrow> string \<Rightarrow> string list" where
  "py_split sep [] = [[]]"
| "py_split sep (c # cs) =
     (if c = sep then [] # py_split sep cs
      else (case py_split sep cs of [] \<Rightarrow> [[c]] | f # fs \<Rightarrow> (c # f) # fs))"

text \<open>\<^verbatim>\<open>sep.join(xs)\<close>.\<close>

fun py_join :: "string \<Rightarrow> string list \<Rightarrow> string" where
  "py_join sep [] = []"
| "py_join sep [x] = x"
| "py_join sep (x # y # ys) = x @ sep @ py_join sep (y # ys)"

text \<open>
  Iterating over a file opened in text mode: a line ends after a newline, and
  \<^verbatim>\<open>\r\n\<close> and \<^verbatim>\<open>\r\<close> are read as \<^verbatim>\<open>\n\<close> (universal newlines).
\<close>

definition push_char :: "char \<Rightarrow> string list \<Rightarrow> string list" where
  "push_char c ls = (case ls of [] \<Rightarrow> [[c]] | l # ls' \<Rightarrow> (c # l) # ls')"

fun file_lines :: "string \<Rightarrow> string list" where
  "file_lines [] = []"
| "file_lines [c] = (if c = CR \<or> c = LF then [[LF]] else [[c]])"
| "file_lines (c # d # cs) =
     (if c = CR \<and> d = LF then [LF] # file_lines cs
      else if c = CR \<or> c = LF then [LF] # file_lines (d # cs)
      else push_char c (file_lines (d # cs)))"

section \<open>The world: files, and the trace of effects\<close>

text \<open>
  Delays are the Python values read from \<^verbatim>\<open>config.yaml\<close>; their type \<open>'d\<close> is left open.
  What \<^verbatim>\<open>time.sleep\<close> and the multiplication \<^verbatim>\<open>delay *= ...\<close> do with them, including
  the exceptions they raise, belongs to the environment below.
\<close>

datatype request =
    Listings string string nat
  | Details json

datatype 'd log =
    Starting
  | ProcessingLocation string
  | FetchingPage nat
  | NoMoreListings
  | FetchingDetails json
  | UnexpectedFormat json
  | JobRequestFailed json exn
  | JobUnexpected json exn
  | Processed nat nat
  | PageRequestFailed exn
  | PageUnexpected exn
  | Completed
  | RateLimited 'd
  | MaxRetriesReached

datatype 'd event =
    LogInfo "'d log"
  | LogWarning "'d log"
  | LogError "'d log"
  | HttpGet request
  | ChatCreate string
  | Sleep 'd
  | FileWrite string string
  | FileAppend string string

text \<open>
  The file system maps a path to the text of the file there. Every effect of the program
  is appended to the trace, in the order the program performs it.

  The model takes the following for granted: a file can always be opened, read and
  written (the directory \<^verbatim>\<open>data\<close> exists); \<^verbatim>\<open>config.yaml\<close> loads and holds the four
  values; the client of the language model can be constructed; logging does not raise;
  and nothing raises outside \<^verbatim>\<open>Exception\<close> (no interrupt). Everything else that the
  source can raise is a value of \<open>exn\<close>.
\<close>

record 'd world =
  files :: "string \<rightharpoonup> string"
  trace :: "'d event list"

definition emit :: "'d event \<Rightarrow> 'd world \<Rightarrow> 'd world" where
  "emit e w = w\<lparr>trace := trace w @ [e]\<rparr>"

text \<open>
  An HTTP response: its status code, and its body as JSON when the body parses.
  A chat completion: the message contents of its choices (\<^verbatim>\<open>content\<close> may be \<^verbatim>\<open>None\<close>).
\<close>

record response =
  status_code :: nat
  body :: "json option"

type_synonym completion = "string option list"

text \<open>
  The environment: what is outside the two source files. The external services answer
  as a function of everything that has happened so far (the trace), so any sequence of
  answers and failures can be given. \<open>csv_row\<close> is the text \<^verbatim>\<open>csv.writer.writerow\<close>
  writes for a row, \<open>format_value\<close> the text an f-string gives a value that is not a string.
  \<open>sleep\<close> is the outcome of \<^verbatim>\<open>time.sleep\<close> for a delay: \<open>None\<close> when it returns, the
  exception when it raises (\<^verbatim>\<open>ValueError\<close> for a negative length, \<^verbatim>\<open>OverflowError\<close> for
  one that is too large, \<^verbatim>\<open>TypeError\<close> for a value that is not a number). \<open>multiply\<close> is
  Python's \<^verbatim>\<open>*\<close> on two configuration values, which raises as well (\<^verbatim>\<open>OverflowError\<close>
  for a float times an integer too large for a float, \<^verbatim>\<open>TypeError\<close> outside numbers).
  The three configuration values are those of \<^verbatim>\<open>config.yaml\<close>.
\<close>

record 'd env =
  http_get :: "'d event list \<Rightarrow> request \<Rightarrow> exn + response"
  chat_create :: "'d event list \<Rightarrow> string \<Rightarrow> exn + completion"
  csv_row :: "json list \<Rightarrow> string"
  format_value :: "json \<Rightarrow> string"
  sleep :: "'d \<Rightarrow> exn option"
  multiply :: "'d \<Rightarrow> 'd \<Rightarrow> exn + 'd"
  INITIAL_DELAY :: 'd
  MAX_RETRIES :: int
  BACKOFF_FACTOR :: 'd

section \<open>utils.py\<close>

text \<open>\<^verbatim>\<open>response.choices[0].message.content.strip()\<close> (line 34).\<close>

definition first_content :: "completion \<Rightarrow> exn + string" where
  "first_content choices =
     (case choices of
        [] \<Rightarrow> Inl IndexError
      | c # _ \<Rightarrow> (case c of None \<Rightarrow> Inl AttributeError | Some s \<Rightarrow> Inr (py_strip s)))"

text \<open>
  The loop of \<^verbatim>\<open>openai_request\<close> (lines 24 to 42), from the current \<^verbatim>\<open>retries\<close> and
  \<^verbatim>\<open>delay\<close>. Only \<^verbatim>\<open>RateLimitError\<close> is caught; any other exception propagates.
  The handler (lines 36 to 39) logs, calls \<^verbatim>\<open>time.sleep(delay)\<close> and multiplies the delay;
  an exception raised by the sleep or by the multiplication is raised inside the handler,
  so it leaves \<^verbatim>\<open>openai_request\<close>. The event \<open>Sleep delay\<close> records the call of line 38.
\<close>

function retry_loop ::
  "'d env \<Rightarrow> string \<Rightarrow> int \<Rightarrow> 'd \<Rightarrow> 'd world \<Rightarrow> (exn + string) \<times> 'd world" where
  "retry_loop env prompt retries delay w =
     (if retries < MAX_RETRIES env then
        (let w1 = emit (ChatCreate prompt) w in
         case chat_create env (trace w) prompt of
           Inr completion \<Rightarrow> (first_content completion, w1)
         | Inl e \<Rightarrow>
             if e = RateLimitError then
               (let w2 = emit (Sleep delay) (emit (LogWarning (RateLimited delay)) w1) in
                case sleep env delay of
                  Some e' \<Rightarrow> (Inl e', w2)
                | None \<Rightarrow>
                    (case multiply env delay (BACKOFF_FACTOR env) of
                       Inl e' \<Rightarrow> (Inl e', w2)
                     | Inr delay' \<Rightarrow> retry_loop env prompt (retries + 1) delay' w2))
             else (Inl e, w1))
      else (Inl MaxRetriesExceeded, emit (LogError MaxRetriesReached) w))"
  by pat_completeness auto
termination
  by (relation "measure (\<lambda>(env, prompt, retries, delay, w). nat (MAX_RETRIES env - retries))") auto

declare retry_loop.simps [simp del]

definition openai_request :: "'d env \<Rightarrow> string \<Rightarrow> 'd world \<Rightarrow> (exn + string) \<times> 'd world" where
  "openai_request env prompt w = retry_loop env prompt 0 (INITIAL_DELAY env) w"

section \<open>extract_skills.py\<close>

definition QUERIED_IDS_FILE :: string where
  "QUERIED_IDS_FILE = ''data/queried_job_ids.csv''"

definition OUTPUT_FILE :: string where
  "OUTPUT_FILE = ''data/job_data.csv''"

definition LOCATION_IDS :: "string list" where
  "LOCATION_IDS =
     [''101318387'', ''106315325'', ''101098412'', ''101949407'', ''104383890'', ''101174742'',
      ''90009540'', ''103366113'', ''100025096'', ''102199904'', ''101282230'', ''103035651'',
      ''105015875'', ''90009659'', ''101165590'', ''90009496'', ''104738515'', ''90009824'',
      ''100752109'', ''91000000'', ''91000002'', ''91000007'', ''90010383'', ''90010409'',
      ''101452733'', ''100992797'']"

definition field :: string where
  "field = ''data scientist''"

definition max_job_ids :: nat where
  "max_job_ids = 10000"

subsection \<open>Files\<close>

text \<open>
  Opening a file with mode \<^verbatim>\<open>"w"\<close> or \<^verbatim>\<open>"a"\<close>, writing a text and closing it.
  Mode \<^verbatim>\<open>"a"\<close> keeps the text of an existing file and starts a missing one empty.
\<close>

definition file_text :: "(string \<rightharpoonup> string) \<Rightarrow> string \<Rightarrow> string" where
  "file_text fs path = (case fs path of None \<Rightarrow> [] | Some old \<Rightarrow> old)"

definition write_file :: "string \<Rightarrow> string \<Rightarrow> 'd world \<Rightarrow> 'd world" where
  "write_file path text w =
     emit (FileWrite path text) (w\<lparr>files := (files w)(path \<mapsto> text)\<rparr>)"

definition append_file :: "string \<Rightarrow> string \<Rightarrow> 'd world \<Rightarrow> 'd world" where
  "append_file path text w =
     emit (FileAppend path text) (w\<lparr>files := (files w)(path \<mapsto> file_text (files w) path @ text)\<rparr>)"

definition load_queried_ids :: "(string \<rightharpoonup> string) \<Rightarrow> string \<Rightarrow> string set" where
  "load_queried_ids fs file_path =
     (case fs file_path of
        None \<Rightarrow> {}
      | Some text \<Rightarrow> set (map py_strip (file_lines text)))"

definition save_queried_ids :: "'d env \<Rightarrow> string \<Rightarrow> json list \<Rightarrow> 'd world \<Rightarrow> 'd world" where
  "save_queried_ids env file_path job_ids w =
     append_file file_path (concat (map (\<lambda>job_id. csv_row env [job_id]) job_ids)) w"

subsection \<open>The two fetchers\<close>

definition raise_for_status :: "response \<Rightarrow> exn option" where
  "raise_for_status r =
     (if 400 \<le> status_code r \<and> status_code r < 600 then Some (HTTPError (status_code r))
      else None)"

definition response_json :: "response \<Rightarrow> exn + json" where
  "response_json r = (case body r of None \<Rightarrow> Inl JSONDecodeError | Some v \<Rightarrow> Inr v)"

text \<open>
  The three lines both fetchers end with: \<^verbatim>\<open>requests.get\<close>, \<^verbatim>\<open>raise_for_status\<close>,
  \<^verbatim>\<open>return response.json()\<close>.
\<close>

definition get_json :: "'d env \<Rightarrow> request \<Rightarrow> 'd world \<Rightarrow> (exn + json) \<times> 'd world" where
  "get_json env rq w =
     (let w1 = emit (HttpGet rq) w in
      case http_get env (trace w) rq of
        Inl e \<Rightarrow> (Inl e, w1)
      | Inr r \<Rightarrow>
          (case raise_for_status r of
             Some e \<Rightarrow> (Inl e, w1)
           | None \<Rightarrow> (response_json r, w1)))"

definition fetch_job_listings ::
  "'d env \<Rightarrow> string \<Rightarrow> string \<Rightarrow> nat \<Rightarrow> 'd world \<Rightarrow> (exn + json) \<times> 'd world" where
  "fetch_job_listings env fld location_id page w = get_json env (Listings fld location_id page) w"

definition fetch_job_details :: "'d env \<Rightarrow> json \<Rightarrow> 'd world \<Rightarrow> (exn + json) \<times> 'd world" where
  "fetch_job_details env job_id w = get_json env (Details job_id) w"

subsection \<open>Skill extraction\<close>

definition py_format :: "'d env \<Rightarrow> json \<Rightarrow> string" where
  "py_format env v = (case v of JStr s \<Rightarrow> s | _ \<Rightarrow> format_value env v)"

definition make_prompt :: "'d env \<Rightarrow> json \<Rightarrow> string" where
  "make_prompt env job_description =
     LF # ''    Extract the most relevant skills from the following job description. ''
     @ LF # ''    Return the skills as a comma-separated list:''
     @ LF # ''    '' @ py_format env job_description
     @ LF # ''    ''"

text \<open>Line 74: \<^verbatim>\<open>[skill.strip() for skill in response.split(",") if skill.strip()]\<close>.\<close>

definition parse_skills :: "string \<Rightarrow> string list" where
  "parse_skills response =
     map py_strip (filter (\<lambda>skill. py_strip skill \<noteq> []) (py_split (CHR '','') response))"

definition extract_skills ::
  "'d env \<Rightarrow> json \<Rightarrow> 'd world \<Rightarrow> (exn + string list) \<times> 'd world" where
  "extract_skills env job_description w =
     (case openai_request env (make_prompt env job_description) w of
        (Inl e, w') \<Rightarrow> (Inl e, w')
      | (Inr response, w') \<Rightarrow> (Inr (parse_skills response), w'))"

subsection \<open>The sink\<close>

record job =
  job_position :: json
  company_name :: json
  seniority_level :: json
  job_location :: json
  skills :: "string list"

definition headers :: "string list" where
  "headers = [''job_position'', ''company_name'', ''seniority_level'', ''job_location'', ''skills'']"

definition job_row :: "job \<Rightarrow> json list" where
  "job_row j =
     [job_position j, company_name j, seniority_level j, job_location j,
      JStr (py_join '', '' (skills j))]"

definition save_job_data :: "'d env \<Rightarrow> string \<Rightarrow> job list \<Rightarrow> 'd world \<Rightarrow> 'd world" where
  "save_job_data env file_path jobs w =
     (let w1 = (if files w file_path = None
                then write_file file_path (csv_row env (map JStr headers)) w
                else w)
      in append_file file_path (concat (map (\<lambda>j. csv_row env (job_row j)) jobs)) w1)"

subsection \<open>One job (lines 126 to 162 of main)\<close>

text \<open>Lines 135 and 136: a non-empty list is replaced by its first element.\<close>

definition unwrap_list :: "json \<Rightarrow> json" where
  "unwrap_list job_details = (case job_details of JArr (x # _) \<Rightarrow> x | _ \<Rightarrow> job_details)"

text \<open>Line 143, and the dict of lines 147 to 153.\<close>

definition description_of :: "(string \<times> json) list \<Rightarrow> json" where
  "description_of job_details = dict_get job_details ''job_description'' (JStr [])"

definition assemble_job :: "(string \<times> json) list \<Rightarrow> string list \<Rightarrow> job" where
  "assemble_job job_details skls =
     \<lparr>job_position = dict_get job_details ''job_position'' (JStr ''N/A''),
      company_name = dict_get job_details ''company_name'' (JStr ''N/A''),
      seniority_level = dict_get job_details ''Seniority_level'' (JStr ''N/A''),
      job_location = dict_get job_details ''job_location'' (JStr ''N/A''),
      skills = skls\<rparr>"

text \<open>
  Lines 134 to 153, on what \<^verbatim>\<open>fetch_job_details\<close> returned: \<open>Inr None\<close> is the
  \<^verbatim>\<open>continue\<close> of line 140, \<open>Inr (Some j)\<close> the job to append, \<open>Inl e\<close> an exception.
\<close>

definition process_details ::
  "'d env \<Rightarrow> json \<Rightarrow> 'd world \<Rightarrow> (exn + job option) \<times> 'd world" where
  "process_details env fetched w =
     (let job_details = unwrap_list fetched in
      case job_details of
        JObj kvs \<Rightarrow>
          (case extract_skills env (description_of kvs) w of
             (Inl e, w') \<Rightarrow> (Inl e, w')
           | (Inr skls, w') \<Rightarrow> (Inr (Some (assemble_job kvs skls)), w'))
      | _ \<Rightarrow> (Inr None, emit (LogError (UnexpectedFormat job_details)) w))"

text \<open>The body of the inner \<^verbatim>\<open>try\<close> (lines 131 to 155).\<close>

definition try_job ::
  "'d env \<Rightarrow> json \<Rightarrow> 'd world \<Rightarrow> (exn + job option) \<times> 'd world" where
  "try_job env job_id w =
     (case fetch_job_details env job_id (emit (LogInfo (FetchingDetails job_id)) w) of
        (Inl e, w') \<Rightarrow> (Inl e, w')
      | (Inr fetched, w') \<Rightarrow> process_details env fetched w')"

text \<open>The two handlers of the inner \<^verbatim>\<open>try\<close> (lines 157 to 162) log and continue.\<close>

definition job_failure :: "json \<Rightarrow> exn \<Rightarrow> 'd event" where
  "job_failure job_id e =
     LogError (if is_request_exception e then JobRequestFailed job_id e
               else JobUnexpected job_id e)"

text \<open>
  The body of the \<^verbatim>\<open>for\<close> loop, on the pair of \<^verbatim>\<open>new_jobs\<close> and \<^verbatim>\<open>new_job_ids\<close>.
  Lines 126 and 127 are outside the inner \<^verbatim>\<open>try\<close>: an exception there leaves the loop.
\<close>

definition process_job ::
  "'d env \<Rightarrow> json set \<Rightarrow> json \<Rightarrow> job list \<times> json list \<Rightarrow> 'd world
     \<Rightarrow> (exn + job list \<times> json list) \<times> 'd world" where
  "process_job env queried_ids listing acc w =
     (case getitem listing ''job_id'' of
        Inl e \<Rightarrow> (Inl e, w)
      | Inr job_id \<Rightarrow>
          if \<not> hashable job_id then (Inl TypeError, w)
          else if set_key job_id \<in> queried_ids then (Inr acc, w)
          else
            (case try_job env job_id w of
               (Inl e, w') \<Rightarrow> (Inr acc, emit (job_failure job_id e) w')
             | (Inr None, w') \<Rightarrow> (Inr acc, w')
             | (Inr (Some j), w') \<Rightarrow> (Inr (fst acc @ [j], snd acc @ [job_id]), w')))"

fun for_jobs ::
  "'d env \<Rightarrow> json set \<Rightarrow> json list \<Rightarrow> job list \<times> json list \<Rightarrow> 'd world
     \<Rightarrow> (exn + job list \<times> json list) \<times> 'd world" where
  "for_jobs env queried_ids [] acc w = (Inr acc, w)"
| "for_jobs env queried_ids (listing # rest) acc w =
     (case process_job env queried_ids listing acc w of
        (Inl e, w') \<Rightarrow> (Inl e, w')
      | (Inr acc', w') \<Rightarrow> for_jobs env queried_ids rest acc' w')"

subsection \<open>One page (lines 113 to 180)\<close>

text \<open>Lines 165 to 170: the new set of known ids, the new running total, the new world.\<close>

definition commit_page ::
  "'d env \<Rightarrow> job list \<Rightarrow> json list \<Rightarrow> json set \<Rightarrow> nat \<Rightarrow> 'd world
     \<Rightarrow> json set \<times> nat \<times> 'd world" where
  "commit_page env new_jobs new_job_ids queried_ids total_job_ids w =
     (if new_jobs \<noteq> [] then
        (let w1 = save_job_data env OUTPUT_FILE new_jobs w;
             w2 = save_queried_ids env QUERIED_IDS_FILE new_job_ids w1;
             queried_ids' = queried_ids \<union> set (map set_key new_job_ids);
             total_job_ids' = total_job_ids + length new_job_ids
         in (queried_ids', total_job_ids',
             emit (LogInfo (Processed (length new_job_ids) total_job_ids')) w2))
      else (queried_ids, total_job_ids, w))"

text \<open>
  The body of the outer \<^verbatim>\<open>try\<close> (lines 114 to 173): \<open>Inr None\<close> is the \<^verbatim>\<open>break\<close> of
  line 120, \<open>Inr (Some (ids, total))\<close> the state in which the next page starts.
\<close>

definition try_page ::
  "'d env \<Rightarrow> string \<Rightarrow> nat \<Rightarrow> nat \<Rightarrow> json set \<Rightarrow> 'd world
     \<Rightarrow> (exn + (json set \<times> nat) option) \<times> 'd world" where
  "try_page env location_id page total_job_ids queried_ids w =
     (case fetch_job_listings env field location_id page (emit (LogInfo (FetchingPage page)) w) of
        (Inl e, w') \<Rightarrow> (Inl e, w')
      | (Inr job_listings, w') \<Rightarrow>
          if \<not> truthy job_listings then (Inr None, emit (LogInfo NoMoreListings) w')
          else
            (case py_iter job_listings of
               Inl e \<Rightarrow> (Inl e, w')
             | Inr listings \<Rightarrow>
                 (case for_jobs env queried_ids listings ([], []) w' of
                    (Inl e, w'') \<Rightarrow> (Inl e, w'')
                  | (Inr (new_jobs, new_job_ids), w'') \<Rightarrow>
                      (case commit_page env new_jobs new_job_ids queried_ids total_job_ids w'' of
                         (queried_ids', total_job_ids', w''') \<Rightarrow>
                           (Inr (Some (queried_ids', total_job_ids')), w''')))))"

text \<open>The two handlers of the outer \<^verbatim>\<open>try\<close> (lines 175 to 180) log and break.\<close>

definition page_failure :: "exn \<Rightarrow> 'd event" where
  "page_failure e =
     LogError (if is_request_exception e then PageRequestFailed e else PageUnexpected e)"

text \<open>
  The \<^verbatim>\<open>while\<close> loop of a location (line 112), from the current page, running total and
  set of known ids. \<^verbatim>\<open>api_credits_remaining\<close> is never assigned after line 110, so it
  stays true.
\<close>

function page_loop ::
  "'d env \<Rightarrow> string \<Rightarrow> nat \<Rightarrow> nat \<Rightarrow> json set \<Rightarrow> 'd world \<Rightarrow> json set \<times> 'd world" where
  "page_loop env location_id page total_job_ids queried_ids w =
     (if page \<le> 100 \<and> total_job_ids < max_job_ids then
        (case try_page env location_id page total_job_ids queried_ids w of
           (Inl e, w') \<Rightarrow> (queried_ids, emit (page_failure e) w')
         | (Inr None, w') \<Rightarrow> (queried_ids, w')
         | (Inr (Some (queried_ids', total_job_ids')), w') \<Rightarrow>
             page_loop env location_id (page + 1) total_job_ids' queried_ids' w')
      else (queried_ids, w))"
  by pat_completeness auto
termination
  by (relation "measure (\<lambda>(env, location_id, page, total_job_ids, queried_ids, w). 101 - page)") auto

declare page_loop.simps [simp del]

subsection \<open>The run\<close>

text \<open>The \<^verbatim>\<open>for\<close> loop over the locations (lines 105 to 180).\<close>

fun locations_loop ::
  "'d env \<Rightarrow> string list \<Rightarrow> json set \<Rightarrow> 'd world \<Rightarrow> json set \<times> 'd world" where
  "locations_loop env [] queried_ids w = (queried_ids, w)"
| "locations_loop env (location_id # rest) queried_ids w =
     (case page_loop env location_id 1 (card queried_ids) queried_ids
             (emit (LogInfo (ProcessingLocation location_id)) w) of
        (queried_ids', w') \<Rightarrow> locations_loop env rest queried_ids' w')"

definition main :: "'d env \<Rightarrow> 'd world \<Rightarrow> 'd world" where
  "main env w =
     (let w1 = emit (LogInfo Starting) w;
          queried_ids = JStr ` load_queried_ids (files w1) QUERIED_IDS_FILE
      in emit (LogInfo Completed) (snd (locations_loop env LOCATION_IDS queried_ids w1)))"

section \<open>The specification of skill parsing\<close>

text \<open>
  The parsing of the model's response as the specification words it: split on commas,
  trim the whitespace around each fragment, discard the empty fragments, keep the order.
\<close>

definition spec_skill_list :: "string \<Rightarrow> string list" where
  "spec_skill_list response =
     filter (\<lambda>fragment. fragment \<noteq> []) (map py_strip (py_split (CHR '','') response))"

section \<open>Sample environments\<close>

text \<open>
  A listings API whose first page always holds jobs 1, 2 and 3 and whose later pages time
  out. The details of job 1 answer with status 500, those of job 2 are a one-element list
  wrapping a mapping, those of job 3 are a string. The model answers at once.
\<close>

definition sample_listings :: json where
  "sample_listings =
     JArr [JObj [(''job_id'', JStr ''1'')], JObj [(''job_id'', JStr ''2'')],
           JObj [(''job_id'', JStr ''3'')]]"

definition sample_details :: "(string \<times> json) list" where
  "sample_details =
     [(''job_position'', JStr ''Data Scientist''), (''company_name'', JStr ''Acme''),
      (''job_description'', JStr ''We use Python and SQL'')]"

definition sample_field :: "json \<Rightarrow> string" where
  "sample_field v =
     (case v of
        JStr s \<Rightarrow> if CHR '','' \<in> set s then CHR 0x22 # s @ [CHR 0x22] else s
      | _ \<Rightarrow> [])"

definition sample_csv :: "json list \<Rightarrow> string" where
  "sample_csv row = py_join '','' (map sample_field row) @ [CR, LF]"

definition sample_http :: "int event list \<Rightarrow> request \<Rightarrow> exn + response" where
  "sample_http tr rq =
     (case rq of
        Listings fld location_id page \<Rightarrow>
          if page = 1 then Inr \<lparr>status_code = 200, body = Some sample_listings\<rparr>
          else Inl (ConnectionFailure ''timed out'')
      | Details job_id \<Rightarrow>
          if job_id = JStr ''1'' then Inr \<lparr>status_code = 500, body = None\<rparr>
          else if job_id = JStr ''2''
            then Inr \<lparr>status_code = 200, body = Some (JArr [JObj sample_details])\<rparr>
          else Inr \<lparr>status_code = 200, body = Some (JStr ''gone'')\<rparr>)"

text \<open>
  \<^verbatim>\<open>time.sleep\<close> on the integer delays of the samples: a negative length raises
  \<^verbatim>\<open>ValueError\<close>. The product of two integers never raises.
\<close>

definition sample_sleep :: "int \<Rightarrow> exn option" where
  "sample_sleep delay = (if delay < 0 then Some ValueError else None)"

definition sample_env :: "int env" where
  "sample_env =
     \<lparr>http_get = sample_http,
      chat_create = (\<lambda>tr prompt. Inr [Some '' Python, SQL,  Java ,,'']),
      csv_row = sample_csv,
      format_value = (\<lambda>v. ''?''),
      sleep = sample_sleep,
      multiply = (\<lambda>delay factor. Inr (delay * factor)),
      INITIAL_DELAY = 1,
      MAX_RETRIES = 3,
      BACKOFF_FACTOR = 2\<rparr>"





definition empty_world :: "int world" where
  "empty_world = \<lparr>files = Map.empty, trace = []\<rparr>"

text \<open>The record the sample environment yields for job 2.\<close>

definition sample_job :: job where
  "sample_job =
     \<lparr>job_position = JStr ''Data Scientist'', company_name = JStr ''Acme'',
      seniority_level = JStr ''N/A'', job_location = JStr ''N/A'',
      skills = [''Python'', ''SQL'', ''Java'']\<rparr>"

text \<open>
  The world after page 1 of location A, a dedupe set at the cap, and a world whose dedupe
  file records job 2.
\<close>

abbreviation (input) sample_prompt :: string where
  "sample_prompt \<equiv> make_prompt sample_env (JStr ''We use Python and SQL'')"

definition sample_page_world :: "int world" where
  "sample_page_world =
     \<lparr>files = [OUTPUT_FILE \<mapsto> sample_csv (map JStr headers) @ sample_csv (job_row sample_job),
               QUERIED_IDS_FILE \<mapsto> sample_csv [JStr ''2'']],
      trace =
        [LogInfo (ProcessingLocation ''A''),
         LogInfo (FetchingPage 1), HttpGet (Listings field ''A'' 1),
         LogInfo (FetchingDetails (JStr ''1'')), HttpGet (Details (JStr ''1'')),
         LogError (JobRequestFailed (JStr ''1'') (HTTPError 500)),
         LogInfo (FetchingDetails (JStr ''2'')), HttpGet (Details (JStr ''2'')),
         ChatCreate (make_prompt sample_env (JStr ''We use Python and SQL'')),
         LogInfo (FetchingDetails (JStr ''3'')), HttpGet (Details (JStr ''3'')),
         LogError (UnexpectedFormat (JStr ''gone'')),
         FileWrite OUTPUT_FILE (sample_csv (map JStr headers)),
         FileAppend OUTPUT_FILE (sample_csv (job_row sample_job)),
         FileAppend QUERIED_IDS_FILE (sample_csv [JStr ''2'']),
         LogInfo (Processed 1 1)]\<rparr>"

definition many_ids :: "json set" where
  "many_ids = (\<lambda>n. JNum (of_nat n)) ` {..<10000}"

definition sample_known_world :: "int world" where
  "sample_known_world = \<lparr>files = [QUERIED_IDS_FILE \<mapsto> ''2'' @ [CR, LF]], trace = []\<rparr>"

section \<open>Observing a run\<close>

text \<open>
  The events a computation added to the trace, and the computations that add only events
  with a given property.
\<close>

definition new_events :: "'d world \<Rightarrow> 'd world \<Rightarrow> 'd event list" where
  "new_events w w' = drop (length (trace w)) (trace w')"

definition emits :: "('d event \<Rightarrow> bool) \<Rightarrow> 'd world \<Rightarrow> 'd world \<Rightarrow> bool" where
  "emits P w w' \<longleftrightarrow> prefix (trace w) (trace w') \<and> list_all P (new_events w w')"

fun is_http :: "'d event \<Rightarrow> bool" where
  "is_http (HttpGet _) = True"
| "is_http _ = False"

text \<open>An event that is not a detail fetch for an id of the given set.\<close>

definition fetches_unknown :: "json set \<Rightarrow> 'd event \<Rightarrow> bool" where
  "fetches_unknown queried_ids e =
     (case e of HttpGet (Details job_id) \<Rightarrow> set_key job_id \<notin> queried_ids | _ \<Rightarrow> True)"


text \<open>
  One turn of the loop over the listings of a page, on the outcome of the turns before it:
  once an exception has left the loop, nothing more is done. The loop is the fold of this
  step over the listings (lemma \<open>for_jobs_foldl\<close>).
\<close>

definition job_step ::
  "'d env \<Rightarrow> json set \<Rightarrow> (exn + job list \<times> json list) \<times> 'd world \<Rightarrow> json
     \<Rightarrow> (exn + job list \<times> json list) \<times> 'd world" where
  "job_step env queried_ids outcome listing =
     (case outcome of
        (Inl e, w) \<Rightarrow> (Inl e, w)
      | (Inr acc, w) \<Rightarrow> process_job env queried_ids listing acc w)"

section \<open>Splitting and parsing\<close>

text \<open>
  \<open>py_split\<close> cuts at every separator and nowhere else: no fragment holds the separator,
  and joining the fragments with it gives the string back.
\<close>

lemma py_split_not_Nil: "py_split sep s \<noteq> []"
  by (induction s) (auto split: list.splits)

lemma py_split_no_separator: "f \<in> set (py_split sep s) \<Longrightarrow> sep \<notin> set f"
  by (induction s arbitrary: f) (auto split: list.splits if_splits)

lemma py_join_py_split: "py_join [sep] (py_split sep s) = s"
proof (induction s)
  case Nil
  show ?case by simp
next
  case (Cons c cs)
  obtain f fs where split: "py_split sep cs = f # fs"
    using py_split_not_Nil [of sep cs] by (cases "py_split sep cs") auto
  with Cons show ?case
    by (cases fs) auto
qed

lemma parse_skills_spec: "parse_skills response = spec_skill_list response"
  by (simp add: parse_skills_def spec_skill_list_def filter_map comp_def)

lemma parse_skills_example:
  "parse_skills ''Python, SQL,  Java ,,'' = [''Python'', ''SQL'', ''Java'']"
  by (simp add: parse_skills_def py_strip_def is_space_def whitespace_def)

lemma sample_request:
  "openai_request sample_env prompt w =
     (Inr ''Python, SQL,  Java ,,'', emit (ChatCreate prompt) w)"
  unfolding openai_request_def
  by (subst retry_loop.simps)
    (simp add: sample_env_def first_content_def py_strip_def is_space_def whitespace_def)

lemma py_strip_Cons_space: "is_space c \<Longrightarrow> py_strip (c # s) = py_strip s"
  by (simp add: py_strip_def)

lemma py_strip_snoc_space:
  assumes "is_space c"
  shows "py_strip (s @ [c]) = py_strip s"
proof (cases "\<forall>x\<in>set s. is_space x")
  case True
  with assms show ?thesis
    by (auto simp: py_strip_def dropWhile_eq_Nil_conv dest: set_dropWhileD)
next
  case False
  then obtain x where "x \<in> set s" and "\<not> is_space x"
    by blast
  then have "dropWhile is_space (s @ [c]) = dropWhile is_space s @ [c]"
    by (rule dropWhile_append1)
  with assms show ?thesis
    by (simp add: py_strip_def)
qed

lemma py_split_snoc:
  "c \<noteq> sep \<Longrightarrow>
     py_split sep (s @ [c]) = butlast (py_split sep s) @ [last (py_split sep s) @ [c]]"
proof (induction s)
  case Nil
  then show ?case by simp
next
  case (Cons d s)
  obtain f fs where split: "py_split sep s = f # fs"
    using py_split_not_Nil [of sep s] by (cases "py_split sep s") auto
  with Cons show ?case
    by (cases fs) (auto simp: py_split_not_Nil split: list.splits)
qed

lemma strip_split_Cons_space:
  assumes "is_space c" and "c \<noteq> sep"
  shows "map py_strip (py_split sep (c # s)) = map py_strip (py_split sep s)"
proof -
  obtain f fs where "py_split sep s = f # fs"
    using py_split_not_Nil [of sep s] by (cases "py_split sep s") auto
  with assms show ?thesis
    by (simp add: py_strip_Cons_space)
qed

lemma strip_split_snoc_space:
  assumes "is_space c" and "c \<noteq> sep"
  shows "map py_strip (py_split sep (s @ [c])) = map py_strip (py_split sep s)"
proof -
  have "map py_strip (py_split sep (s @ [c]))
      = map py_strip (butlast (py_split sep s)) @ [py_strip (last (py_split sep s))]"
    using assms by (simp add: py_split_snoc py_strip_snoc_space)
  also have "\<dots> = map py_strip (butlast (py_split sep s) @ [last (py_split sep s)])"
    by simp
  also have "\<dots> = map py_strip (py_split sep s)"
    by (simp add: py_split_not_Nil)
  finally show ?thesis .
qed

lemma strip_split_dropWhile:
  "\<not> is_space sep \<Longrightarrow>
     map py_strip (py_split sep (dropWhile is_space s)) = map py_strip (py_split sep s)"
proof (induction s)
  case Nil
  show ?case by simp
next
  case (Cons c s)
  show ?case
  proof (cases "is_space c")
    case True
    with Cons have "c \<noteq> sep" by auto
    with True Cons show ?thesis
      by (simp add: strip_split_Cons_space del: py_split.simps)
  next
    case False
    then show ?thesis by simp
  qed
qed

lemma strip_split_dropWhile_end:
  "\<not> is_space sep \<Longrightarrow>
     map py_strip (py_split sep (rev (dropWhile is_space (rev s)))) = map py_strip (py_split sep s)"
proof (induction s rule: rev_induct)
  case Nil
  show ?case by simp
next
  case (snoc c s)
  show ?case
  proof (cases "is_space c")
    case True
    with snoc have "c \<noteq> sep" by auto
    with True snoc show ?thesis
      by (simp add: strip_split_snoc_space)
  next
    case False
    then show ?thesis by simp
  qed
qed

lemma spec_skill_list_py_strip: "spec_skill_list (py_strip s) = spec_skill_list s"
proof -
  have comma: "\<not> is_space (CHR '','')"
    by (simp add: is_space_def whitespace_def)
  have "map py_strip (py_split (CHR '','') (py_strip s)) = map py_strip (py_split (CHR '','') s)"
    by (simp only: py_strip_def [of s] strip_split_dropWhile_end [OF comma]
        strip_split_dropWhile [OF comma])
  then show ?thesis
    by (simp only: spec_skill_list_def)
qed

lemma py_strip_ends:
  "py_strip s \<noteq> [] \<Longrightarrow> \<not> is_space (hd (py_strip s)) \<and> \<not> is_space (last (py_strip s))"
proof -
  assume ne: "py_strip s \<noteq> []"
  let ?t = "dropWhile is_space (rev (dropWhile is_space s))"
  from ne have t: "?t \<noteq> []"
    by (simp add: py_strip_def)
  then have last_ok: "\<not> is_space (hd ?t)"
    by (rule hd_dropWhile)
  from t have "last ?t = last (rev (dropWhile is_space s))"
    by (metis append_is_Nil_conv last_appendR takeWhile_dropWhile_id)
  also from t have "\<dots> = hd (dropWhile is_space s)"
    by (metis dropWhile.simps(1) last_rev rev.simps(1))
  finally have "last ?t = hd (dropWhile is_space s)" .
  moreover from t have "dropWhile is_space s \<noteq> []"
    by (cases "dropWhile is_space s = []") simp_all
  ultimately have "\<not> is_space (last ?t)"
    by (simp add: hd_dropWhile)
  with last_ok t show ?thesis
    by (simp add: py_strip_def hd_rev last_rev)
qed

lemma set_py_strip: "set (py_strip s) \<subseteq> set s"
  by (auto simp: py_strip_def dest!: set_dropWhileD)

lemma spec_skill_list_elements:
  assumes "skill \<in> set (spec_skill_list response)"
  shows "skill \<noteq> [] \<and> \<not> is_space (hd skill) \<and> \<not> is_space (last skill) \<and> CHR '','' \<notin> set skill"
proof -
  from assms obtain f where f: "f \<in> set (py_split (CHR '','') response)"
    and skill: "skill = py_strip f" and ne: "skill \<noteq> []"
    by (auto simp: spec_skill_list_def)
  from f have "CHR '','' \<notin> set f"
    by (rule py_split_no_separator)
  with set_py_strip [of f] skill have "CHR '','' \<notin> set skill"
    by auto
  with py_strip_ends [of f] skill ne show ?thesis
    by simp
qed

lemma openai_request_first_answer:
  assumes "0 < MAX_RETRIES env" and "chat_create env (trace w) prompt = Inr (Some content # choices)"
  shows "openai_request env prompt w = (Inr (py_strip content), emit (ChatCreate prompt) w)"
  using assms unfolding openai_request_def
  by (subst retry_loop.simps) (simp add: first_content_def)

text \<open>
  C2. Whatever string the language-model client returns, \<open>extract_skills\<close> returns that
  string split on commas, each fragment trimmed, the empty fragments discarded, in the
  original order. This holds for the string \<open>openai_request\<close> returns and for the content
  of the completion it was made from; and the response "Python, SQL,  Java ,," gives
  exactly Python, SQL, Java.
\<close>

theorem extract_skills_splits_trims_discards:
  "(openai_request env (make_prompt env job_description) w = (Inr response, w') \<longrightarrow>
      extract_skills env job_description w = (Inr (spec_skill_list response), w')) \<and>
   (0 < MAX_RETRIES env \<and>
    chat_create env (trace w) (make_prompt env job_description) = Inr (Some content # choices) \<longrightarrow>
      extract_skills env job_description w =
        (Inr (spec_skill_list content), emit (ChatCreate (make_prompt env job_description)) w)) \<and>
   spec_skill_list ''Python, SQL,  Java ,,'' = [''Python'', ''SQL'', ''Java'']"
  using parse_skills_example
  by (auto simp add: extract_skills_def parse_skills_spec openai_request_first_answer
      spec_skill_list_py_strip)

theorem extract_skills_splits_trims_discards_witness:
  "extract_skills sample_env (JStr ''We use Python and SQL'') empty_world =
     (Inr (spec_skill_list ''Python, SQL,  Java ,,''),
      emit (ChatCreate (make_prompt sample_env (JStr ''We use Python and SQL''))) empty_world) \<and>
   extract_skills sample_env (JStr ''We use Python and SQL'') empty_world =
     (Inr (spec_skill_list '' Python, SQL,  Java ,,''),
      emit (ChatCreate (make_prompt sample_env (JStr ''We use Python and SQL''))) empty_world) \<and>
   spec_skill_list ''Python, SQL,  Java ,,'' = [''Python'', ''SQL'', ''Java'']"
proof -
  have tries: "0 < MAX_RETRIES sample_env"
    by (simp add: sample_env_def)
  have answer: "chat_create sample_env (trace empty_world)
      (make_prompt sample_env (JStr ''We use Python and SQL'')) = Inr (Some '' Python, SQL,  Java ,,'' # [])"
    by (simp add: sample_env_def)
  note parsed = extract_skills_splits_trims_discards [where env = sample_env and job_description = "JStr ''We use Python and SQL''"
      and w = empty_world and response = "''Python, SQL,  Java ,,''"
      and w' = "emit (ChatCreate (make_prompt sample_env (JStr ''We use Python and SQL''))) empty_world"
      and content = "'' Python, SQL,  Java ,,''" and choices = "[]"]
  from mp [OF parsed [THEN conjunct1] sample_request]
    mp [OF parsed [THEN conjunct2, THEN conjunct1] conjI [OF tries answer]]
    parsed [THEN conjunct2, THEN conjunct2]
  show ?thesis
    by (intro conjI)
qed

section \<open>Retrying the language model\<close>




section \<open>The trace and the files along a run\<close>

text \<open>
  Every part of the driver only appends to the trace, only appends to files, fetches the
  details of no id of the set of known ids, and never shrinks that set.
\<close>

lemma emits_iff: "emits P w w' \<longleftrightarrow> (\<exists>evs. trace w' = trace w @ evs \<and> list_all P evs)"
  by (auto simp: emits_def new_events_def prefix_def)

lemma emits_refl [simp]: "emits P w w"
  by (simp add: emits_iff)

lemma emits_trans: "emits P w w' \<Longrightarrow> emits P w' w'' \<Longrightarrow> emits P w w''"
  by (auto simp: emits_iff)

lemma emits_emit: "P e \<Longrightarrow> emits P w (emit e w)"
  by (simp add: emits_iff emit_def)

lemma emits_then_emit: "emits P w w' \<Longrightarrow> P e \<Longrightarrow> emits P w (emit e w')"
  by (auto simp: emits_iff emit_def)

lemma emits_mono: "emits P w w' \<Longrightarrow> (\<And>e. P e \<Longrightarrow> Q e) \<Longrightarrow> emits Q w w'"
  by (auto simp: emits_iff list_all_iff)

lemma files_emit [simp]: "files (emit e w) = files w"
  by (simp add: emit_def)

lemma retry_loop_quiet:
  "retry_loop env prompt retries delay w = (r, w') \<Longrightarrow>
     emits (\<lambda>e. \<not> is_http e) w w' \<and> files w' = files w"
proof (induction env prompt retries delay w rule: retry_loop.induct)
  case (1 env prompt retries delay w)
  let ?w1 = "emit (ChatCreate prompt) w"
  let ?w2 = "emit (Sleep delay) (emit (LogWarning (RateLimited delay)) ?w1)"
  have step: "emits (\<lambda>e. \<not> is_http e) w ?w2"
    by (simp add: emits_iff emit_def)
  show ?case
  proof (cases "retries < MAX_RETRIES env")
    case False
    with "1.prems" show ?thesis
      by (auto simp: retry_loop.simps [of env prompt retries] intro: emits_emit)
  next
    case True
    show ?thesis
    proof (cases "chat_create env (trace w) prompt")
      case (Inr c)
      with True "1.prems" show ?thesis
        by (auto simp: retry_loop.simps [of env prompt retries] intro: emits_emit)
    next
      case (Inl e)
      show ?thesis
      proof (cases "e = RateLimitError")
        case False
        with Inl True "1.prems" show ?thesis
          by (auto simp: retry_loop.simps [of env prompt retries] intro: emits_emit)
      next
        case limited: True
        show ?thesis
        proof (cases "sleep env delay")
          case (Some raised)
          with Inl True limited "1.prems" have "w' = ?w2"
            by (simp add: retry_loop.simps [of env prompt retries])
          with step show ?thesis
            by simp
        next
          case None
          show ?thesis
          proof (cases "multiply env delay (BACKOFF_FACTOR env)")
            case failed: (Inl raised)
            with None Inl True limited "1.prems" have "w' = ?w2"
              by (simp add: retry_loop.simps [of env prompt retries])
            with step show ?thesis
              by simp
          next
            case longer: (Inr delay')
            with None Inl True limited "1.prems"
            have "retry_loop env prompt (retries + 1) delay' ?w2 = (r, w')"
              by (simp add: retry_loop.simps [of env prompt retries])
            with "1.IH" [OF True refl Inl limited refl None longer]
            have "emits (\<lambda>e. \<not> is_http e) ?w2 w'" and "files w' = files ?w2"
              by auto
            with step show ?thesis
              by (auto intro: emits_trans)
          qed
        qed
      qed
    qed
  qed
qed

lemma extract_skills_quiet:
  "extract_skills env d w = (r, w') \<Longrightarrow> emits (\<lambda>e. \<not> is_http e) w w' \<and> files w' = files w"
  by (auto simp: extract_skills_def openai_request_def split: prod.splits sum.splits
      dest: retry_loop_quiet)

lemma process_details_quiet:
  "process_details env fetched w = (r, w') \<Longrightarrow> emits (\<lambda>e. \<not> is_http e) w w' \<and> files w' = files w"
  by (auto simp: process_details_def Let_def split: prod.splits sum.splits json.splits
      dest: extract_skills_quiet intro: emits_emit)

lemma get_json_events:
  "get_json env rq w = (r, w') \<Longrightarrow> w' = emit (HttpGet rq) w"
  by (auto simp: get_json_def Let_def split: sum.splits option.splits)

lemma try_job_events:
  assumes "try_job env job_id w = (r, w')"
  shows "emits (\<lambda>e. is_http e \<longrightarrow> e = HttpGet (Details job_id)) w w' \<and> files w' = files w"
proof -
  let ?P = "\<lambda>e. is_http e \<longrightarrow> e = HttpGet (Details job_id)"
  let ?w1 = "emit (HttpGet (Details job_id)) (emit (LogInfo (FetchingDetails job_id)) w)"
  have start: "emits ?P w ?w1"
    by (simp add: emits_iff emit_def)
  obtain r1 w1 where f: "fetch_job_details env job_id (emit (LogInfo (FetchingDetails job_id)) w) = (r1, w1)"
    by (cases "fetch_job_details env job_id (emit (LogInfo (FetchingDetails job_id)) w)")
  then have w1: "w1 = ?w1"
    by (simp add: fetch_job_details_def get_json_events)
  show ?thesis
  proof (cases r1)
    case (Inl e)
    with assms f w1 start show ?thesis
      by (auto simp: try_job_def)
  next
    case (Inr fetched)
    with assms f have "process_details env fetched w1 = (r, w')"
      by (simp add: try_job_def)
    from process_details_quiet [OF this] have "emits ?P w1 w'" and "files w' = files w1"
      by (auto intro: emits_mono)
    with start w1 show ?thesis
      by (auto intro: emits_trans)
  qed
qed

lemma process_job_events:
  assumes "process_job env queried_ids listing acc w = (r, w')"
  shows "emits (fetches_unknown queried_ids) w w' \<and> files w' = files w"
proof (cases "getitem listing ''job_id''")
  case (Inl e)
  with assms show ?thesis by (auto simp: process_job_def)
next
  case (Inr job_id)
  show ?thesis
  proof (cases "hashable job_id \<and> set_key job_id \<notin> queried_ids")
    case False
    with Inr assms show ?thesis by (auto simp: process_job_def split: if_splits)
  next
    case True
    obtain r1 w1 where t: "try_job env job_id w = (r1, w1)"
      by (cases "try_job env job_id w")
    from try_job_events [OF t] True
    have ev: "emits (fetches_unknown queried_ids) w w1" and fs: "files w1 = files w"
      by (auto simp: fetches_unknown_def elim!: emits_mono split: event.splits request.splits)
    have "fetches_unknown queried_ids (job_failure job_id e)" for e
      by (simp add: fetches_unknown_def job_failure_def)
    with assms Inr True t ev fs show ?thesis
      by (auto simp: process_job_def split: sum.splits option.splits intro: emits_then_emit)
  qed
qed

lemma for_jobs_events:
  "for_jobs env queried_ids listings acc w = (r, w') \<Longrightarrow>
     emits (fetches_unknown queried_ids) w w' \<and> files w' = files w"
proof (induction listings arbitrary: acc w)
  case Nil
  then show ?case by simp
next
  case (Cons listing rest)
  obtain r1 w1 where p: "process_job env queried_ids listing acc w = (r1, w1)"
    by (cases "process_job env queried_ids listing acc w")
  note ev = process_job_events [OF p]
  show ?case
  proof (cases r1)
    case (Inl e)
    with Cons.prems p ev show ?thesis by auto
  next
    case (Inr acc')
    with Cons.prems p have "for_jobs env queried_ids rest acc' w1 = (r, w')"
      by simp
    from Cons.IH [OF this] ev show ?thesis
      by (auto intro: emits_trans)
  qed
qed

lemma fetches_unknown_mono:
  "queried_ids \<subseteq> queried_ids' \<Longrightarrow> fetches_unknown queried_ids' e \<Longrightarrow> fetches_unknown queried_ids e"
  by (auto simp: fetches_unknown_def split: event.splits request.splits)

lemma fetches_unknown_no_http: "\<not> is_http e \<Longrightarrow> fetches_unknown queried_ids e"
  by (cases e) (auto simp: fetches_unknown_def)

lemma append_file_grows:
  "prefix (file_text (files w) p) (file_text (files (append_file path s w)) p)"
  by (simp add: append_file_def file_text_def split: option.splits)

lemma append_file_events: "emits (\<lambda>e. \<not> is_http e) w (append_file path s w)"
  by (simp add: append_file_def emits_iff emit_def)

lemma save_job_data_grows:
  "prefix (file_text (files w) p) (file_text (files (save_job_data env path jobs w)) p)"
  by (simp add: save_job_data_def append_file_def write_file_def file_text_def Let_def
      split: option.splits)

lemma save_job_data_events: "emits (\<lambda>e. \<not> is_http e) w (save_job_data env path jobs w)"
  by (simp add: save_job_data_def append_file_def write_file_def emits_iff emit_def Let_def)

lemma commit_page_events:
  assumes "commit_page env new_jobs new_job_ids queried_ids total_job_ids w = (queried_ids', total', w')"
  shows "emits (\<lambda>e. \<not> is_http e) w w'"
    and "prefix (file_text (files w) p) (file_text (files w') p)"
    and "queried_ids \<subseteq> queried_ids'"
proof -
  let ?w1 = "save_job_data env OUTPUT_FILE new_jobs w"
  let ?w2 = "save_queried_ids env QUERIED_IDS_FILE new_job_ids ?w1"
  have ev: "emits (\<lambda>e. \<not> is_http e) w ?w2"
    unfolding save_queried_ids_def
    by (rule emits_trans [OF save_job_data_events append_file_events])
  have gr: "prefix (file_text (files w) p) (file_text (files ?w2) p)"
    unfolding save_queried_ids_def
    by (rule prefix_order.trans [OF save_job_data_grows append_file_grows])
  from assms ev show "emits (\<lambda>e. \<not> is_http e) w w'"
    by (auto simp: commit_page_def Let_def split: if_splits intro: emits_then_emit)
  from assms gr show "prefix (file_text (files w) p) (file_text (files w') p)"
    by (auto simp: commit_page_def Let_def split: if_splits)
  from assms show "queried_ids \<subseteq> queried_ids'"
    by (auto simp: commit_page_def Let_def split: if_splits)
qed

lemma try_page_events:
  assumes "try_page env location_id page total_job_ids queried_ids w = (r, w')"
  shows "emits (fetches_unknown queried_ids) w w'"
    and "prefix (file_text (files w) p) (file_text (files w') p)"
    and "r = Inr (Some (queried_ids', total')) \<Longrightarrow> queried_ids \<subseteq> queried_ids'"
proof -
  let ?P = "fetches_unknown queried_ids"
  let ?w1 = "emit (HttpGet (Listings field location_id page)) (emit (LogInfo (FetchingPage page)) w)"
  have start: "emits ?P w ?w1"
    by (simp add: emits_iff emit_def fetches_unknown_def)
  obtain r1 w1 where f: "fetch_job_listings env field location_id page (emit (LogInfo (FetchingPage page)) w) = (r1, w1)"
    by (cases "fetch_job_listings env field location_id page (emit (LogInfo (FetchingPage page)) w)")
  then have w1: "w1 = ?w1"
    by (simp add: fetch_job_listings_def get_json_events)
  have "emits ?P w w' \<and> prefix (file_text (files w) p) (file_text (files w') p)
        \<and> (r = Inr (Some (queried_ids', total')) \<longrightarrow> queried_ids \<subseteq> queried_ids')"
  proof (cases r1)
    case (Inl e)
    with assms f w1 start show ?thesis
      by (auto simp: try_page_def)
  next
    case (Inr job_listings)
    note fetched = this
    show ?thesis
    proof (cases "truthy job_listings")
      case False
      with assms f fetched w1 start show ?thesis
        by (auto simp: try_page_def fetches_unknown_def intro: emits_then_emit)
    next
      case True
      show ?thesis
      proof (cases "py_iter job_listings")
        case (Inl e)
        with assms f fetched True w1 start show ?thesis
          by (auto simp: try_page_def)
      next
        case (Inr listings)
        obtain r2 w2 where l: "for_jobs env queried_ids listings ([], []) w1 = (r2, w2)"
          by (cases "for_jobs env queried_ids listings ([], []) w1")
        from for_jobs_events [OF l] start w1
        have ev2: "emits ?P w w2" and fs2: "files w2 = files w"
          by (auto intro: emits_trans)
        show ?thesis
        proof (cases r2)
          case (Inl e)
          with assms f fetched True Inr l ev2 fs2 show ?thesis
            by (auto simp: try_page_def)
        next
          case acc: (Inr acc)
          obtain new_jobs new_job_ids where acc_eq: "acc = (new_jobs, new_job_ids)"
            by (cases acc)
          obtain q3 t3 w3 where c: "commit_page env new_jobs new_job_ids queried_ids total_job_ids w2 = (q3, t3, w3)"
            by (cases "commit_page env new_jobs new_job_ids queried_ids total_job_ids w2") auto
          from assms f fetched True Inr l acc acc_eq c
          have res: "r = Inr (Some (q3, t3))" "w' = w3"
            by (auto simp: try_page_def)
          have "emits ?P w2 w3"
            by (rule emits_mono [OF commit_page_events(1) [OF c]]) (rule fetches_unknown_no_http)
          with ev2 have "emits ?P w w3"
            by (rule emits_trans)
          with commit_page_events(2) [OF c, of p] commit_page_events(3) [OF c] fs2 res
          show ?thesis
            by auto
        qed
      qed
    qed
  qed
  then show "emits (fetches_unknown queried_ids) w w'"
    and "prefix (file_text (files w) p) (file_text (files w') p)"
    and "r = Inr (Some (queried_ids', total')) \<Longrightarrow> queried_ids \<subseteq> queried_ids'"
    by auto
qed

lemma page_loop_events:
  "page_loop env location_id page total_job_ids queried_ids w = (queried_ids', w') \<Longrightarrow>
     emits (fetches_unknown queried_ids) w w' \<and>
     (\<forall>p. prefix (file_text (files w) p) (file_text (files w') p)) \<and>
     queried_ids \<subseteq> queried_ids'"
proof (induction env location_id page total_job_ids queried_ids w rule: page_loop.induct)
  case (1 env location_id page total_job_ids queried_ids w)
  show ?case
  proof (cases "page \<le> 100 \<and> total_job_ids < max_job_ids")
    case False
    with "1.prems" show ?thesis
      by (auto simp: page_loop.simps [of env location_id page])
  next
    case True
    obtain r w1 where t: "try_page env location_id page total_job_ids queried_ids w = (r, w1)"
      by (cases "try_page env location_id page total_job_ids queried_ids w")
    note ev = try_page_events(1) [OF t] and gr = try_page_events(2) [OF t]
    show ?thesis
    proof (cases r)
      case (Inl e)
      have "fetches_unknown queried_ids (page_failure e)"
        by (simp add: fetches_unknown_def page_failure_def)
      with Inl True t "1.prems" ev gr show ?thesis
        by (auto simp: page_loop.simps [of env location_id page] intro: emits_then_emit)
    next
      case (Inr nxt)
      show ?thesis
      proof (cases nxt)
        case None
        with Inr True t "1.prems" ev gr show ?thesis
          by (auto simp: page_loop.simps [of env location_id page])
      next
        case (Some st)
        obtain q1 t1 where st: "st = (q1, t1)"
          by (cases st)
        from Inr Some st True t "1.prems"
        have rec: "page_loop env location_id (page + 1) t1 q1 w1 = (queried_ids', w')"
          by (simp add: page_loop.simps [of env location_id page])
        from Inr Some st have r: "r = Inr (Some (q1, t1))"
          by simp
        note sub = try_page_events(3) [OF t r]
        from "1.IH" [OF True t [symmetric] Inr Some st [symmetric] rec]
        have ev': "emits (fetches_unknown q1) w1 w'"
          and gr': "\<And>p. prefix (file_text (files w1) p) (file_text (files w') p)"
          and sub': "q1 \<subseteq> queried_ids'"
          by auto
        from ev' sub have "emits (fetches_unknown queried_ids) w1 w'"
          by (auto elim!: emits_mono intro: fetches_unknown_mono)
        with ev have "emits (fetches_unknown queried_ids) w w'"
          by (rule emits_trans)
        moreover have "prefix (file_text (files w) p) (file_text (files w') p)" for p
          by (rule prefix_order.trans [OF gr gr'])
        ultimately show ?thesis
          using sub sub' by auto
      qed
    qed
  qed
qed

lemma locations_loop_events:
  "locations_loop env locs queried_ids w = (queried_ids', w') \<Longrightarrow>
     emits (fetches_unknown queried_ids) w w' \<and>
     (\<forall>p. prefix (file_text (files w) p) (file_text (files w') p)) \<and>
     queried_ids \<subseteq> queried_ids'"
proof (induction locs arbitrary: queried_ids w)
  case Nil
  then show ?case by auto
next
  case (Cons location_id rest)
  let ?w0 = "emit (LogInfo (ProcessingLocation location_id)) w"
  obtain q1 w1 where pl: "page_loop env location_id 1 (card queried_ids) queried_ids ?w0 = (q1, w1)"
    by (cases "page_loop env location_id 1 (card queried_ids) queried_ids ?w0")
  with Cons.prems have rec: "locations_loop env rest q1 w1 = (queried_ids', w')"
    by simp
  from page_loop_events [OF pl]
  have ev: "emits (fetches_unknown queried_ids) ?w0 w1"
    and gr: "\<And>p. prefix (file_text (files w) p) (file_text (files w1) p)"
    and sub: "queried_ids \<subseteq> q1"
    by auto
  from Cons.IH [OF rec]
  have ev': "emits (fetches_unknown q1) w1 w'"
    and gr': "\<And>p. prefix (file_text (files w1) p) (file_text (files w') p)"
    and sub': "q1 \<subseteq> queried_ids'"
    by auto
  have "emits (fetches_unknown queried_ids) w ?w0"
    by (simp add: emits_emit fetches_unknown_def)
  moreover from ev' sub have "emits (fetches_unknown queried_ids) w1 w'"
    by (auto elim!: emits_mono intro: fetches_unknown_mono)
  ultimately have "emits (fetches_unknown queried_ids) w w'"
    using ev by (blast intro: emits_trans)
  moreover have "prefix (file_text (files w) p) (file_text (files w') p)" for p
    by (rule prefix_order.trans [OF gr gr'])
  ultimately show ?case
    using sub sub' by auto
qed

lemma emits_fetches_unknown:
  "emits (fetches_unknown queried_ids) w w' \<Longrightarrow> set_key job_id \<in> queried_ids \<Longrightarrow>
     HttpGet (Details job_id) \<notin> set (new_events w w')"
  by (auto simp: emits_def list_all_iff fetches_unknown_def)

section \<open>The sample environment, evaluated\<close>

lemma sample_fetch_1:
  "fetch_job_details sample_env (JStr ''1'') w =
     (Inl (HTTPError 500), emit (HttpGet (Details (JStr ''1''))) w)"
  by (simp add: fetch_job_details_def get_json_def sample_env_def sample_http_def
      raise_for_status_def)

lemma sample_fetch_2:
  "fetch_job_details sample_env (JStr ''2'') w =
     (Inr (JArr [JObj sample_details]), emit (HttpGet (Details (JStr ''2''))) w)"
  by (simp add: fetch_job_details_def get_json_def sample_env_def sample_http_def
      raise_for_status_def response_json_def)

lemma sample_fetch_3:
  "fetch_job_details sample_env (JStr ''3'') w =
     (Inr (JStr ''gone''), emit (HttpGet (Details (JStr ''3''))) w)"
  by (simp add: fetch_job_details_def get_json_def sample_env_def sample_http_def
      raise_for_status_def response_json_def)


lemma sample_extract:
  "extract_skills sample_env d w =
     (Inr [''Python'', ''SQL'', ''Java''], emit (ChatCreate (make_prompt sample_env d)) w)"
  by (simp add: extract_skills_def sample_request parse_skills_example)

lemma sample_for_jobs:
  "for_jobs sample_env {} [JObj [(''job_id'', JStr ''1'')], JObj [(''job_id'', JStr ''2'')],
       JObj [(''job_id'', JStr ''3'')]] ([], []) w =
     (Inr ([sample_job], [JStr ''2'']),
      w\<lparr>trace := trace w @
        [LogInfo (FetchingDetails (JStr ''1'')), HttpGet (Details (JStr ''1'')),
         LogError (JobRequestFailed (JStr ''1'') (HTTPError 500)),
         LogInfo (FetchingDetails (JStr ''2'')), HttpGet (Details (JStr ''2'')),
         ChatCreate sample_prompt,
         LogInfo (FetchingDetails (JStr ''3'')), HttpGet (Details (JStr ''3'')),
         LogError (UnexpectedFormat (JStr ''gone''))]\<rparr>)"
  by (simp add: process_job_def try_job_def sample_fetch_1 sample_fetch_2 sample_fetch_3
      process_details_def unwrap_list_def sample_extract sample_job_def
      assemble_job_def description_of_def dict_get_def sample_details_def job_failure_def)
    (simp add: emit_def)

lemma sample_listings_1:
  "fetch_job_listings sample_env fld location_id (Suc 0) w =
     (Inr sample_listings, emit (HttpGet (Listings fld location_id (Suc 0))) w)"
  by (simp add: fetch_job_listings_def get_json_def sample_env_def sample_http_def
      raise_for_status_def response_json_def)

lemma sample_listings_2:
  "page \<noteq> 1 \<Longrightarrow> fetch_job_listings sample_env fld location_id page w =
     (Inl (ConnectionFailure ''timed out''), emit (HttpGet (Listings fld location_id page)) w)"
  by (simp add: fetch_job_listings_def get_json_def sample_env_def sample_http_def)

lemma sample_commit:
  "files w = Map.empty \<Longrightarrow>
   commit_page sample_env [sample_job] [JStr ''2''] {} 0 w =
     ({JStr ''2''}, 1,
      w\<lparr>files := [OUTPUT_FILE \<mapsto> sample_csv (map JStr headers) @ sample_csv (job_row sample_job),
                   QUERIED_IDS_FILE \<mapsto> sample_csv [JStr ''2'']],
        trace := trace w @
          [FileWrite OUTPUT_FILE (sample_csv (map JStr headers)),
           FileAppend OUTPUT_FILE (sample_csv (job_row sample_job)),
           FileAppend QUERIED_IDS_FILE (sample_csv [JStr ''2'']),
           LogInfo (Processed 1 1)]\<rparr>)"
  by (simp add: commit_page_def save_job_data_def save_queried_ids_def write_file_def
      append_file_def file_text_def emit_def sample_env_def OUTPUT_FILE_def QUERIED_IDS_FILE_def)

lemma sample_page_1:
  assumes "files w = Map.empty"
  shows "try_page sample_env location_id (Suc 0) 0 {} w =
     (Inr (Some ({JStr ''2''}, 1)),
      w\<lparr>files := [OUTPUT_FILE \<mapsto> sample_csv (map JStr headers) @ sample_csv (job_row sample_job),
                   QUERIED_IDS_FILE \<mapsto> sample_csv [JStr ''2'']],
        trace := trace w @
          [LogInfo (FetchingPage (Suc 0)), HttpGet (Listings field location_id (Suc 0)),
           LogInfo (FetchingDetails (JStr ''1'')), HttpGet (Details (JStr ''1'')),
           LogError (JobRequestFailed (JStr ''1'') (HTTPError 500)),
           LogInfo (FetchingDetails (JStr ''2'')), HttpGet (Details (JStr ''2'')),
           ChatCreate sample_prompt,
           LogInfo (FetchingDetails (JStr ''3'')), HttpGet (Details (JStr ''3'')),
           LogError (UnexpectedFormat (JStr ''gone'')),
           FileWrite OUTPUT_FILE (sample_csv (map JStr headers)),
           FileAppend OUTPUT_FILE (sample_csv (job_row sample_job)),
           FileAppend QUERIED_IDS_FILE (sample_csv [JStr ''2'']),
           LogInfo (Processed (Suc 0) (Suc 0))]\<rparr>)"
proof -
  let ?w1 = "emit (HttpGet (Listings field location_id (Suc 0))) (emit (LogInfo (FetchingPage (Suc 0))) w)"
  have "files (snd (for_jobs sample_env {} [JObj [(''job_id'', JStr ''1'')],
          JObj [(''job_id'', JStr ''2'')], JObj [(''job_id'', JStr ''3'')]] ([], []) ?w1)) = Map.empty"
    using assms by (simp add: sample_for_jobs del: for_jobs.simps)
  then show ?thesis
    by (simp add: try_page_def sample_listings_1 sample_listings_def sample_for_jobs sample_commit
        del: for_jobs.simps)
      (simp add: emit_def)
qed

lemma sample_location_reaches_page_2:
  "page_loop sample_env ''A'' 1 (card {}) {} (emit (LogInfo (ProcessingLocation ''A'')) empty_world)
     = page_loop sample_env ''A'' 2 1 {JStr ''2''} sample_page_world"
proof -
  have "files (emit (LogInfo (ProcessingLocation ''A'')) empty_world) = Map.empty"
    by (simp add: empty_world_def)
  from sample_page_1 [OF this, of "''A''"] show ?thesis
    by (subst page_loop.simps)
      (simp add: max_job_ids_def sample_page_world_def emit_def empty_world_def numeral_2_eq_2)
qed

section \<open>One failing job\<close>


lemma job_step_simps:
  "job_step env queried_ids (Inl e, w) listing = (Inl e, w)"
  "job_step env queried_ids (Inr acc, w) listing = process_job env queried_ids listing acc w"
  by (simp_all add: job_step_def)

lemma foldl_job_step_raised:
  "foldl (job_step env queried_ids) (Inl e, w) listings = (Inl e, w)"
  by (induction listings) (simp_all add: job_step_simps)

lemma for_jobs_foldl:
  "for_jobs env queried_ids listings acc w = foldl (job_step env queried_ids) (Inr acc, w) listings"
proof (induction listings arbitrary: acc w)
  case Nil
  show ?case by simp
next
  case (Cons listing rest)
  show ?case
  proof (cases "process_job env queried_ids listing acc w")
    case (Pair r w')
    with Cons show ?thesis
      by (cases r) (simp_all add: job_step_simps foldl_job_step_raised)
  qed
qed








text \<open>Outside the inner guard: a listing without a job id ends the loop over the page.\<close>

lemma listing_without_id_leaves_loop:
  "getitem listing ''job_id'' = Inl e \<Longrightarrow>
     for_jobs env queried_ids (listing # rest) acc w = (Inl e, w)"
  by (simp add: process_job_def)






section \<open>Absent fields\<close>

text \<open>
  C4, as stated, fails for the free-text description: when the description is absent from
  the detail response, the pipeline takes the empty string, not the sentinel, and sends a
  prompt built from the empty string; the assembled record has no description field.
\<close>

theorem absent_description_is_not_sentinel:
  "description_of [] = JStr [] \<and> description_of [] \<noteq> JStr ''N/A'' \<and>
   process_details sample_env (JObj []) empty_world =
     (Inr (Some \<lparr>job_position = JStr ''N/A'', company_name = JStr ''N/A'',
                 seniority_level = JStr ''N/A'', job_location = JStr ''N/A'',
                 skills = [''Python'', ''SQL'', ''Java'']\<rparr>),
      emit (ChatCreate (make_prompt sample_env (JStr []))) empty_world)"
  by (simp add: description_of_def dict_get_def process_details_def unwrap_list_def
      sample_extract assemble_job_def)

text \<open>
  C4, amended. Each of position title, company name, seniority level (looked up under the
  key \<open>Seniority_level\<close>) and location that is absent from the detail response is the
  sentinel \<open>N/A\<close> in the assembled record; an absent description is the empty string.
\<close>

theorem absent_fields_default:
  "(map_of job_details ''job_position'' = None \<longrightarrow>
      job_position (assemble_job job_details skls) = JStr ''N/A'') \<and>
   (map_of job_details ''company_name'' = None \<longrightarrow>
      company_name (assemble_job job_details skls) = JStr ''N/A'') \<and>
   (map_of job_details ''Seniority_level'' = None \<longrightarrow>
      seniority_level (assemble_job job_details skls) = JStr ''N/A'') \<and>
   (map_of job_details ''job_location'' = None \<longrightarrow>
      job_location (assemble_job job_details skls) = JStr ''N/A'') \<and>
   (map_of job_details ''job_description'' = None \<longrightarrow>
      description_of job_details = JStr [])"
  by (simp add: assemble_job_def description_of_def dict_get_def)

theorem absent_fields_default_witness:
  "job_position (assemble_job [(''company_name'', JStr ''Acme'')] []) = JStr ''N/A'' \<and>
   company_name (assemble_job [(''job_position'', JStr ''Analyst'')] []) = JStr ''N/A'' \<and>
   seniority_level (assemble_job [(''seniority_level'', JStr ''Senior'')] []) = JStr ''N/A'' \<and>
   job_location (assemble_job [] []) = JStr ''N/A'' \<and>
   description_of [(''company_name'', JStr ''Acme'')] = JStr []"
  using absent_fields_default [of "[(''company_name'', JStr ''Acme'')]" "[]"]
    absent_fields_default [of "[(''job_position'', JStr ''Analyst'')]" "[]"]
    absent_fields_default [of "[(''seniority_level'', JStr ''Senior'')]" "[]"]
    absent_fields_default [of "[]" "[]"]
  by simp

section \<open>The shape of the details\<close>

text \<open>
  C5. A detail response that is a one-element list wrapping a mapping is processed as
  the bare mapping is: the skills are extracted from its description and the record is
  assembled from its fields. When the response, after unwrapping, is not a mapping, the
  body of the loop logs the unexpected format and skips the job: it returns the lists of
  new jobs and new ids as they were, without raising, and the loop over the page
  processes the remaining listings one after the other from there.
\<close>

theorem detail_shapes_are_normalised:
  "process_details env (JArr [JObj kvs]) w = process_details env (JObj kvs) w \<and>
   process_details env (JObj kvs) w =
     (case extract_skills env (description_of kvs) w of
        (Inl e, w2) \<Rightarrow> (Inl e, w2)
      | (Inr skls, w2) \<Rightarrow> (Inr (Some (assemble_job kvs skls)), w2)) \<and>
   (getitem listing ''job_id'' = Inr job_id \<and> hashable job_id \<and>
    set_key job_id \<notin> queried_ids \<and>
    fetch_job_details env job_id (emit (LogInfo (FetchingDetails job_id)) w) = (Inr fetched, w') \<and>
    (\<forall>kvs. unwrap_list fetched \<noteq> JObj kvs) \<longrightarrow>
    process_details env fetched w' =
      (Inr None, emit (LogError (UnexpectedFormat (unwrap_list fetched))) w') \<and>
    process_job env queried_ids listing acc w =
      (Inr acc, emit (LogError (UnexpectedFormat (unwrap_list fetched))) w') \<and>
    for_jobs env queried_ids (listing # rest) acc w =
      foldl (job_step env queried_ids)
        (Inr acc, emit (LogError (UnexpectedFormat (unwrap_list fetched))) w') rest)"
proof (intro conjI impI)
  show "process_details env (JArr [JObj kvs]) w = process_details env (JObj kvs) w"
    by (simp add: process_details_def unwrap_list_def)
  show "process_details env (JObj kvs) w =
     (case extract_skills env (description_of kvs) w of
        (Inl e, w2) \<Rightarrow> (Inl e, w2)
      | (Inr skls, w2) \<Rightarrow> (Inr (Some (assemble_job kvs skls)), w2))"
    by (simp add: process_details_def unwrap_list_def)
next
  assume scenario: "getitem listing ''job_id'' = Inr job_id \<and> hashable job_id \<and>
    set_key job_id \<notin> queried_ids \<and>
    fetch_job_details env job_id (emit (LogInfo (FetchingDetails job_id)) w) = (Inr fetched, w') \<and>
    (\<forall>kvs. unwrap_list fetched \<noteq> JObj kvs)"
  then show details: "process_details env fetched w' =
      (Inr None, emit (LogError (UnexpectedFormat (unwrap_list fetched))) w')"
    by (cases "unwrap_list fetched") (simp_all add: process_details_def)
  with scenario show job: "process_job env queried_ids listing acc w =
      (Inr acc, emit (LogError (UnexpectedFormat (unwrap_list fetched))) w')"
    by (simp add: process_job_def try_job_def)
  then show "for_jobs env queried_ids (listing # rest) acc w =
      foldl (job_step env queried_ids)
        (Inr acc, emit (LogError (UnexpectedFormat (unwrap_list fetched))) w') rest"
    by (simp add: for_jobs_foldl job_step_simps)
qed

theorem detail_shapes_are_normalised_witness:
  "process_details sample_env (JArr [JObj sample_details]) empty_world =
     (Inr (Some sample_job), emit (ChatCreate sample_prompt) empty_world) \<and>
   process_details sample_env (JObj sample_details) empty_world =
     (Inr (Some sample_job), emit (ChatCreate sample_prompt) empty_world) \<and>
   process_job sample_env {} (JObj [(''job_id'', JStr ''3'')]) ([], []) empty_world =
     (Inr ([], []),
      empty_world\<lparr>trace :=
        [LogInfo (FetchingDetails (JStr ''3'')), HttpGet (Details (JStr ''3'')),
         LogError (UnexpectedFormat (JStr ''gone''))]\<rparr>) \<and>
   for_jobs sample_env {} [JObj [(''job_id'', JStr ''3'')], JObj [(''job_id'', JStr ''2'')]]
       ([], []) empty_world =
     (Inr ([sample_job], [JStr ''2'']),
      empty_world\<lparr>trace :=
        [LogInfo (FetchingDetails (JStr ''3'')), HttpGet (Details (JStr ''3'')),
         LogError (UnexpectedFormat (JStr ''gone'')),
         LogInfo (FetchingDetails (JStr ''2'')), HttpGet (Details (JStr ''2'')),
         ChatCreate sample_prompt]\<rparr>)"
proof -
  let ?j3 = "JObj [(''job_id'', JStr ''3'')]"
  let ?j2 = "JObj [(''job_id'', JStr ''2'')]"
  let ?w' = "emit (HttpGet (Details (JStr ''3''))) (emit (LogInfo (FetchingDetails (JStr ''3''))) empty_world)"
  note shapes = detail_shapes_are_normalised
      [where env = sample_env and kvs = sample_details and w = empty_world and listing = ?j3
         and job_id = "JStr ''3''" and queried_ids = "{}" and fetched = "JStr ''gone''"
         and w' = ?w' and rest = "[?j2]" and acc = "([], [])"]
  from shapes [THEN conjunct2, THEN conjunct1]
  have bare: "process_details sample_env (JObj sample_details) empty_world =
     (Inr (Some sample_job), emit (ChatCreate sample_prompt) empty_world)"
    by (simp add: sample_extract description_of_def dict_get_def sample_details_def
        assemble_job_def sample_job_def)
  with shapes [THEN conjunct1]
  have wrapped: "process_details sample_env (JArr [JObj sample_details]) empty_world =
     (Inr (Some sample_job), emit (ChatCreate sample_prompt) empty_world)"
    by simp
  have scenario: "getitem ?j3 ''job_id'' = Inr (JStr ''3'') \<and> hashable (JStr ''3'') \<and>
    set_key (JStr ''3'') \<notin> {} \<and>
    fetch_job_details sample_env (JStr ''3'') (emit (LogInfo (FetchingDetails (JStr ''3''))) empty_world)
      = (Inr (JStr ''gone''), ?w') \<and>
    (\<forall>kvs. unwrap_list (JStr ''gone'') \<noteq> JObj kvs)"
    by (simp add: sample_fetch_3 unwrap_list_def)
  note skipped = mp [OF shapes [THEN conjunct2, THEN conjunct2] scenario]
  from skipped [THEN conjunct2, THEN conjunct1]
  have job: "process_job sample_env {} ?j3 ([], []) empty_world =
     (Inr ([], []),
      empty_world\<lparr>trace :=
        [LogInfo (FetchingDetails (JStr ''3'')), HttpGet (Details (JStr ''3'')),
         LogError (UnexpectedFormat (JStr ''gone''))]\<rparr>)"
    by (simp add: unwrap_list_def emit_def empty_world_def)
  from skipped [THEN conjunct2, THEN conjunct2]
  have page: "for_jobs sample_env {} [?j3, ?j2] ([], []) empty_world =
     (Inr ([sample_job], [JStr ''2'']),
      empty_world\<lparr>trace :=
        [LogInfo (FetchingDetails (JStr ''3'')), HttpGet (Details (JStr ''3'')),
         LogError (UnexpectedFormat (JStr ''gone'')),
         LogInfo (FetchingDetails (JStr ''2'')), HttpGet (Details (JStr ''2'')),
         ChatCreate sample_prompt]\<rparr>)"
    by (simp add: job_step_simps process_job_def try_job_def sample_fetch_2
        process_details_def unwrap_list_def sample_extract sample_job_def
        assemble_job_def description_of_def dict_get_def sample_details_def
        del: for_jobs.simps)
      (simp add: emit_def empty_world_def)
  from wrapped bare job page show ?thesis
    by (intro conjI)
qed

section \<open>Known ids\<close>

lemma main_events:
  "emits (fetches_unknown (JStr ` load_queried_ids (files w) QUERIED_IDS_FILE)) w (main env w)"
proof -
  let ?q = "JStr ` load_queried_ids (files w) QUERIED_IDS_FILE"
  let ?w1 = "emit (LogInfo Starting) w"
  obtain q2 w2 where run: "locations_loop env LOCATION_IDS ?q ?w1 = (q2, w2)"
    by (cases "locations_loop env LOCATION_IDS ?q ?w1")
  from locations_loop_events [OF run] have "emits (fetches_unknown ?q) ?w1 w2"
    by simp
  moreover have "emits (fetches_unknown ?q) w ?w1"
    by (simp add: emits_emit fetches_unknown_def)
  ultimately have "emits (fetches_unknown ?q) w w2"
    by (blast intro: emits_trans)
  then have "emits (fetches_unknown ?q) w (emit (LogInfo Completed) w2)"
    by (rule emits_then_emit) (simp add: fetches_unknown_def)
  with run show ?thesis
    by (simp add: main_def Let_def)
qed

text \<open>
  C6. A job id that is in the in-memory dedupe set when its listing is encountered is
  skipped without any effect; and from any state of the run on, through the rest of a
  location, the remaining locations or the whole run, the details of an id that is in the
  dedupe set are never fetched.
\<close>

theorem known_ids_are_never_fetched:
  assumes "set_key job_id \<in> queried_ids"
  shows "(getitem listing ''job_id'' = Inr job_id \<longrightarrow>
            process_job env queried_ids listing acc w =
              (if hashable job_id then Inr acc else Inl TypeError, w)) \<and>
         HttpGet (Details job_id) \<notin>
           set (new_events w (snd (page_loop env location_id page total_job_ids queried_ids w))) \<and>
         HttpGet (Details job_id) \<notin>
           set (new_events w (snd (locations_loop env locs queried_ids w))) \<and>
         (queried_ids = JStr ` load_queried_ids (files w) QUERIED_IDS_FILE \<longrightarrow>
            HttpGet (Details job_id) \<notin> set (new_events w (main env w)))"
proof -
  obtain q1 w1 where page: "page_loop env location_id page total_job_ids queried_ids w = (q1, w1)"
    by (cases "page_loop env location_id page total_job_ids queried_ids w")
  from page_loop_events [OF page] assms
  have "HttpGet (Details job_id) \<notin> set (new_events w w1)"
    by (auto dest: emits_fetches_unknown)
  with page
  have one: "HttpGet (Details job_id) \<notin>
           set (new_events w (snd (page_loop env location_id page total_job_ids queried_ids w)))"
    by simp
  obtain q2 w2 where run: "locations_loop env locs queried_ids w = (q2, w2)"
    by (cases "locations_loop env locs queried_ids w")
  from locations_loop_events [OF run] assms
  have "HttpGet (Details job_id) \<notin> set (new_events w w2)"
    by (auto dest: emits_fetches_unknown)
  with run
  have two: "HttpGet (Details job_id) \<notin>
           set (new_events w (snd (locations_loop env locs queried_ids w)))"
    by simp
  have three: "HttpGet (Details job_id) \<notin> set (new_events w (main env w))"
    if "queried_ids = JStr ` load_queried_ids (files w) QUERIED_IDS_FILE"
    using main_events [of w env] assms that
    by (auto dest: emits_fetches_unknown)
  from one two three assms show ?thesis
    by (simp add: process_job_def)
qed

theorem known_ids_are_never_fetched_witness:
  "set_key (JStr ''2'') \<in> {JStr ''2''} \<and>
   process_job sample_env {JStr ''2''} (JObj [(''job_id'', JStr ''2'')]) ([], []) empty_world
     = (Inr ([], []), empty_world) \<and>
   HttpGet (Details (JStr ''2'')) \<notin>
     set (new_events empty_world (snd (locations_loop sample_env [''A'', ''B''] {JStr ''2''} empty_world))) \<and>
   load_queried_ids (files sample_known_world) QUERIED_IDS_FILE = {''2''} \<and>
   HttpGet (Details (JStr ''2'')) \<notin>
     set (new_events sample_known_world (main sample_env sample_known_world))"
proof -
  have known: "set_key (JStr ''2'') \<in> {JStr ''2''}"
    by simp
  have listed: "getitem (JObj [(''job_id'', JStr ''2'')]) ''job_id'' = Inr (JStr ''2'')"
    by simp
  have stored: "load_queried_ids (files sample_known_world) QUERIED_IDS_FILE = {''2''}"
    by (simp add: sample_known_world_def load_queried_ids_def push_char_def py_strip_def
        is_space_def whitespace_def)
  then have loaded: "{JStr ''2''} = JStr ` load_queried_ids (files sample_known_world) QUERIED_IDS_FILE"
    by (simp only: image_insert image_empty)
  note run = known_ids_are_never_fetched
      [OF known, where listing = "JObj [(''job_id'', JStr ''2'')]" and env = sample_env
         and acc = "([], [])" and w = empty_world and locs = "[''A'', ''B'']"
         and location_id = "''A''" and page = 1 and total_job_ids = 0]
  note start = known_ids_are_never_fetched
      [OF known, where listing = "JObj [(''job_id'', JStr ''2'')]" and env = sample_env
         and acc = "([], [])" and w = sample_known_world and locs = "[''A'', ''B'']"
         and location_id = "''A''" and page = 1 and total_job_ids = 0]
  from mp [OF run [THEN conjunct1] listed]
  have skipped: "process_job sample_env {JStr ''2''} (JObj [(''job_id'', JStr ''2'')]) ([], []) empty_world
     = (Inr ([], []), empty_world)"
    by (simp only: hashable.simps if_True)
  have later: "HttpGet (Details (JStr ''2'')) \<notin>
     set (new_events empty_world (snd (locations_loop sample_env [''A'', ''B''] {JStr ''2''} empty_world)))"
    by (rule run [THEN conjunct2, THEN conjunct2, THEN conjunct1])
  have whole: "HttpGet (Details (JStr ''2'')) \<notin>
     set (new_events sample_known_world (main sample_env sample_known_world))"
    by (rule mp [OF start [THEN conjunct2, THEN conjunct2, THEN conjunct2] loaded])
  show ?thesis
    by (rule conjI [OF known conjI [OF skipped conjI [OF later conjI [OF stored whole]]]])
qed

section \<open>A failing listings fetch\<close>

lemma get_json_files: "files (snd (get_json env rq w)) = files w"
  by (cases "get_json env rq w") (auto dest: get_json_events)

text \<open>
  C7. When the loop of a location has reached some page and the listings fetch for that
  page raises an exception, no file is changed by the failed fetch, the loop of that
  location ends there without raising, the driver goes on with the next location, and
  what the sink file held at the failure stays at the front of the sink file for the rest
  of the run.
\<close>

theorem failed_listings_fetch_halts_location_only:
  assumes reach:
      "page_loop env location_id 1 (card known) known (emit (LogInfo (ProcessingLocation location_id)) w0)
         = page_loop env location_id page total_job_ids queried_ids w"
    and "page \<le> 100" and "total_job_ids < max_job_ids"
    and fails: "fetch_job_listings env field location_id page (emit (LogInfo (FetchingPage page)) w)
         = (Inl e, w')"
  shows "files w' = files w \<and>
     page_loop env location_id page total_job_ids queried_ids w
       = (queried_ids, emit (page_failure e) w') \<and>
     locations_loop env (location_id # rest) known w0
       = locations_loop env rest queried_ids (emit (page_failure e) w') \<and>
     prefix (file_text (files w) OUTPUT_FILE)
       (file_text (files (snd (locations_loop env (location_id # rest) known w0))) OUTPUT_FILE)"
proof -
  from fails have same: "files w' = files w"
    using get_json_files [of env "Listings field location_id page" "emit (LogInfo (FetchingPage page)) w"]
    by (simp add: fetch_job_listings_def)
  from assms(2,3) fails
  have halt: "page_loop env location_id page total_job_ids queried_ids w
       = (queried_ids, emit (page_failure e) w')"
    by (simp add: page_loop.simps [of env location_id page] try_page_def)
  with reach have next_location: "locations_loop env (location_id # rest) known w0
       = locations_loop env rest queried_ids (emit (page_failure e) w')"
    by simp
  obtain q2 w2 where rest: "locations_loop env rest queried_ids (emit (page_failure e) w') = (q2, w2)"
    by (cases "locations_loop env rest queried_ids (emit (page_failure e) w')")
  from locations_loop_events [OF rest] same
  have "prefix (file_text (files w) OUTPUT_FILE) (file_text (files w2) OUTPUT_FILE)"
    by (auto dest: spec [where x = OUTPUT_FILE])
  with same halt next_location rest show ?thesis
    by simp
qed

theorem failed_listings_fetch_halts_location_only_witness:
  "locations_loop sample_env [''A'', ''B''] {} empty_world =
     locations_loop sample_env [''B''] {JStr ''2''}
       (emit (page_failure (ConnectionFailure ''timed out''))
          (emit (HttpGet (Listings field ''A'' 2)) (emit (LogInfo (FetchingPage 2)) sample_page_world))) \<and>
   file_text (files sample_page_world) OUTPUT_FILE =
     sample_csv (map JStr headers) @ sample_csv (job_row sample_job) \<and>
   prefix (sample_csv (map JStr headers) @ sample_csv (job_row sample_job))
     (file_text (files (snd (locations_loop sample_env [''A'', ''B''] {} empty_world))) OUTPUT_FILE)"
proof -
  have page: "(2::nat) \<le> 100" and total: "1 < max_job_ids"
    by (simp_all add: max_job_ids_def)
  have fails: "fetch_job_listings sample_env field ''A'' 2 (emit (LogInfo (FetchingPage 2)) sample_page_world)
      = (Inl (ConnectionFailure ''timed out''),
         emit (HttpGet (Listings field ''A'' 2)) (emit (LogInfo (FetchingPage 2)) sample_page_world))"
    by (simp add: sample_listings_2)
  have sink: "file_text (files sample_page_world) OUTPUT_FILE =
     sample_csv (map JStr headers) @ sample_csv (job_row sample_job)"
    by (simp add: sample_page_world_def file_text_def OUTPUT_FILE_def QUERIED_IDS_FILE_def)
  note run = failed_listings_fetch_halts_location_only
         [OF sample_location_reaches_page_2 page total fails, of "[''B'']"]
  from run have "prefix (file_text (files sample_page_world) OUTPUT_FILE)
     (file_text (files (snd (locations_loop sample_env [''A'', ''B''] {} empty_world))) OUTPUT_FILE)"
    by blast
  then have "prefix (sample_csv (map JStr headers) @ sample_csv (job_row sample_job))
     (file_text (files (snd (locations_loop sample_env [''A'', ''B''] {} empty_world))) OUTPUT_FILE)"
    by (simp only: sink)
  with run sink show ?thesis
    by blast
qed

section \<open>The global cap\<close>

lemma page_loop_at_cap:
  "max_job_ids \<le> total_job_ids \<Longrightarrow>
     page_loop env location_id page total_job_ids queried_ids w = (queried_ids, w)"
  by (simp add: page_loop.simps)

lemma card_many_ids: "card many_ids = 10000"
  by (simp add: many_ids_def card_image inj_on_def)

lemma commit_page_total:
  assumes "finite queried_ids" and "card queried_ids \<le> total_job_ids"
    and "commit_page env new_jobs new_job_ids queried_ids total_job_ids w = (queried_ids', total', w')"
  shows "finite queried_ids' \<and> card queried_ids' \<le> total'"
proof (cases "new_jobs = []")
  case True
  with assms show ?thesis
    by (simp add: commit_page_def)
next
  case False
  have "card (queried_ids \<union> set (map set_key new_job_ids))
      \<le> card queried_ids + card (set (map set_key new_job_ids))"
    by (rule card_Un_le)
  also have "\<dots> \<le> card queried_ids + length (map set_key new_job_ids)"
    by (rule add_left_mono) (rule card_length)
  finally have "card (queried_ids \<union> set (map set_key new_job_ids))
      \<le> total_job_ids + length new_job_ids"
    using assms(2) by simp
  with False assms show ?thesis
    by (auto simp: commit_page_def Let_def)
qed

text \<open>
  C8. Once the dedupe set holds at least \<open>max_job_ids = 10000\<close> ids, the driver only logs
  each remaining location: it fetches no page of listings and no details, and leaves the
  dedupe set and the files as they are. The loop of the current location stops as well,
  since its running total is never below the size of the set; and a run that loads that
  many ids at its start makes no request at all.
\<close>

theorem no_fetch_after_global_cap:
  assumes "max_job_ids \<le> card queried_ids"
  shows "locations_loop env locs queried_ids w =
           (queried_ids,
            w\<lparr>trace := trace w @ map (\<lambda>location_id. LogInfo (ProcessingLocation location_id)) locs\<rparr>) \<and>
         list_all (\<lambda>e. \<not> is_http e) (new_events w (snd (locations_loop env locs queried_ids w))) \<and>
         (card queried_ids \<le> total_job_ids \<longrightarrow>
            page_loop env location_id page total_job_ids queried_ids w = (queried_ids, w)) \<and>
         (queried_ids = JStr ` load_queried_ids (files w) QUERIED_IDS_FILE \<longrightarrow>
            list_all (\<lambda>e. \<not> is_http e) (new_events w (main env w)))"
proof -
  have run: "locations_loop env locs queried_ids w =
           (queried_ids,
            w\<lparr>trace := trace w @ map (\<lambda>location_id. LogInfo (ProcessingLocation location_id)) locs\<rparr>)"
    for locs and w :: "'a world"
    using assms
    by (induction locs arbitrary: w) (simp_all add: page_loop_at_cap emit_def)
  have quiet: "list_all (\<lambda>e. \<not> is_http e) (new_events w (snd (locations_loop env locs queried_ids w)))"
    by (simp add: run new_events_def list_all_iff image_iff)
  have stop: "page_loop env location_id page total_job_ids queried_ids w = (queried_ids, w)"
    if "card queried_ids \<le> total_job_ids"
    using assms that by (simp add: page_loop_at_cap)
  have whole: "list_all (\<lambda>e. \<not> is_http e) (new_events w (main env w))"
    if "queried_ids = JStr ` load_queried_ids (files w) QUERIED_IDS_FILE"
    using that [symmetric]
    by (simp add: main_def Let_def run emit_def new_events_def list_all_iff image_iff)
  from run quiet stop whole show ?thesis
    by blast
qed

theorem no_fetch_after_global_cap_witness:
  "max_job_ids \<le> card many_ids \<and>
   locations_loop sample_env [''101318387'', ''106315325''] many_ids empty_world =
     (many_ids,
      empty_world\<lparr>trace :=
        [LogInfo (ProcessingLocation ''101318387''), LogInfo (ProcessingLocation ''106315325'')]\<rparr>) \<and>
   page_loop sample_env ''101318387'' 1 (card many_ids) many_ids empty_world = (many_ids, empty_world)"
proof -
  have cap: "max_job_ids \<le> card many_ids"
    by (simp add: card_many_ids max_job_ids_def)
  note run = no_fetch_after_global_cap [OF cap, where env = sample_env and locs = "[''101318387'', ''106315325'']"
      and w = empty_world and total_job_ids = "card many_ids" and location_id = "''101318387''"
      and page = 1]
  have full: "card many_ids \<le> card many_ids"
    by (rule order_refl)
  from run [THEN conjunct1]
  have logged: "locations_loop sample_env [''101318387'', ''106315325''] many_ids empty_world =
     (many_ids,
      empty_world\<lparr>trace :=
        [LogInfo (ProcessingLocation ''101318387''), LogInfo (ProcessingLocation ''106315325'')]\<rparr>)"
    by (simp add: empty_world_def)
  from mp [OF run [THEN conjunct2, THEN conjunct2, THEN conjunct1] full] cap logged
  show ?thesis
    by (intro conjI)
qed

section \<open>Committing a page\<close>

lemma try_page_commits:
  assumes "fetch_job_listings env field location_id page (emit (LogInfo (FetchingPage page)) w)
             = (Inr job_listings, w1)"
    and "truthy job_listings" and "py_iter job_listings = Inr listings"
    and "for_jobs env queried_ids listings ([], []) w1 = (Inr (new_jobs, new_job_ids), w2)"
  shows "try_page env location_id page total_job_ids queried_ids w =
           (Inr (Some (fst (commit_page env new_jobs new_job_ids queried_ids total_job_ids w2),
                       fst (snd (commit_page env new_jobs new_job_ids queried_ids total_job_ids w2)))),
            snd (snd (commit_page env new_jobs new_job_ids queried_ids total_job_ids w2)))"
  using assms by (simp add: try_page_def split: prod.splits)

text \<open>
  C9. After the loop over the listings of a page, the page is committed on the lists the
  loop returned. When no new record was produced, nothing changes: the files, the trace,
  the dedupe set and the running total stay as they are. When at least one was produced,
  the rows are appended to the sink file (after the header row when the file is new),
  then the ids are appended to the dedupe file, and the dedupe set and the running total
  are updated with the new ids. A row holds the position, the company, the seniority
  level, the location and the skills joined by a comma and a space, under the five
  column names of the header row.
\<close>

theorem commit_page_persists_then_updates:
  "(fetch_job_listings env field location_id page (emit (LogInfo (FetchingPage page)) w0)
      = (Inr job_listings, w1) \<and>
    truthy job_listings \<and> py_iter job_listings = Inr listings \<and>
    for_jobs env queried_ids listings ([], []) w1 = (Inr (new_jobs, new_job_ids), w) \<longrightarrow>
      try_page env location_id page total_job_ids queried_ids w0 =
        (Inr (Some (fst (commit_page env new_jobs new_job_ids queried_ids total_job_ids w),
                    fst (snd (commit_page env new_jobs new_job_ids queried_ids total_job_ids w)))),
         snd (snd (commit_page env new_jobs new_job_ids queried_ids total_job_ids w)))) \<and>
   (new_jobs = [] \<longrightarrow>
      commit_page env new_jobs new_job_ids queried_ids total_job_ids w =
        (queried_ids, total_job_ids, w)) \<and>
   (new_jobs \<noteq> [] \<longrightarrow>
      fst (commit_page env new_jobs new_job_ids queried_ids total_job_ids w) =
        queried_ids \<union> set (map set_key new_job_ids) \<and>
      fst (snd (commit_page env new_jobs new_job_ids queried_ids total_job_ids w)) =
        total_job_ids + length new_job_ids \<and>
      files (snd (snd (commit_page env new_jobs new_job_ids queried_ids total_job_ids w))) =
        (files w)
          (OUTPUT_FILE \<mapsto>
             (case files w OUTPUT_FILE of
                None \<Rightarrow> csv_row env (map JStr headers)
              | Some old \<Rightarrow> old)
             @ concat (map (\<lambda>j. csv_row env (job_row j)) new_jobs),
           QUERIED_IDS_FILE \<mapsto>
             file_text (files w) QUERIED_IDS_FILE
             @ concat (map (\<lambda>job_id. csv_row env [job_id]) new_job_ids)) \<and>
      new_events w (snd (snd (commit_page env new_jobs new_job_ids queried_ids total_job_ids w))) =
        (case files w OUTPUT_FILE of
           None \<Rightarrow> [FileWrite OUTPUT_FILE (csv_row env (map JStr headers))]
         | Some old \<Rightarrow> [])
        @ [FileAppend OUTPUT_FILE (concat (map (\<lambda>j. csv_row env (job_row j)) new_jobs)),
           FileAppend QUERIED_IDS_FILE (concat (map (\<lambda>job_id. csv_row env [job_id]) new_job_ids)),
           LogInfo (Processed (length new_job_ids) (total_job_ids + length new_job_ids))]) \<and>
   headers = [''job_position'', ''company_name'', ''seniority_level'', ''job_location'', ''skills''] \<and>
   job_row j =
     [job_position j, company_name j, seniority_level j, job_location j,
      JStr (py_join '', '' (skills j))]"
proof (intro conjI impI)
  assume "fetch_job_listings env field location_id page (emit (LogInfo (FetchingPage page)) w0)
      = (Inr job_listings, w1) \<and>
    truthy job_listings \<and> py_iter job_listings = Inr listings \<and>
    for_jobs env queried_ids listings ([], []) w1 = (Inr (new_jobs, new_job_ids), w)"
  then show "try_page env location_id page total_job_ids queried_ids w0 =
        (Inr (Some (fst (commit_page env new_jobs new_job_ids queried_ids total_job_ids w),
                    fst (snd (commit_page env new_jobs new_job_ids queried_ids total_job_ids w)))),
         snd (snd (commit_page env new_jobs new_job_ids queried_ids total_job_ids w)))"
    by (blast intro: try_page_commits)
qed (auto simp add: commit_page_def save_job_data_def save_queried_ids_def append_file_def
      write_file_def file_text_def emit_def new_events_def Let_def OUTPUT_FILE_def
      QUERIED_IDS_FILE_def headers_def job_row_def split: option.splits)

theorem commit_page_persists_then_updates_witness:
  "commit_page sample_env [] [] {JStr ''7''} 1 empty_world = ({JStr ''7''}, 1, empty_world) \<and>
   fst (commit_page sample_env [sample_job] [JStr ''2''] {JStr ''7''} 1 empty_world) =
     {JStr ''7'', JStr ''2''} \<and>
   fst (snd (commit_page sample_env [sample_job] [JStr ''2''] {JStr ''7''} 1 empty_world)) = 2 \<and>
   files (snd (snd (commit_page sample_env [sample_job] [JStr ''2''] {JStr ''7''} 1 empty_world))) =
     [OUTPUT_FILE \<mapsto> sample_csv (map JStr headers) @ sample_csv (job_row sample_job),
      QUERIED_IDS_FILE \<mapsto> sample_csv [JStr ''2'']] \<and>
   new_events empty_world
       (snd (snd (commit_page sample_env [sample_job] [JStr ''2''] {JStr ''7''} 1 empty_world))) =
     [FileWrite OUTPUT_FILE (sample_csv (map JStr headers)),
      FileAppend OUTPUT_FILE (sample_csv (job_row sample_job)),
      FileAppend QUERIED_IDS_FILE (sample_csv [JStr ''2'']),
      LogInfo (Processed 1 2)]"
  using commit_page_persists_then_updates
      [where new_jobs = "[]" and env = sample_env and new_job_ids = "[]"
         and queried_ids = "{JStr ''7''}" and total_job_ids = 1 and w = empty_world]
    commit_page_persists_then_updates
      [where new_jobs = "[sample_job]" and env = sample_env and new_job_ids = "[JStr ''2'']"
         and queried_ids = "{JStr ''7''}" and total_job_ids = 1 and w = empty_world]
  by (simp add: empty_world_def sample_env_def file_text_def insert_commute)

section \<open>Loading the known ids\<close>

lemma file_lines_not_Nil: "l \<in> set (file_lines s) \<Longrightarrow> l \<noteq> []"
  by (induction s arbitrary: l rule: file_lines.induct)
     (auto simp: push_char_def split: if_splits list.splits)

lemma file_lines_no_CR: "l \<in> set (file_lines s) \<Longrightarrow> CR \<notin> set l"
  by (induction s arbitrary: l rule: file_lines.induct)
     (auto simp: push_char_def split: if_splits list.splits)

lemma file_lines_LF_last: "l \<in> set (file_lines s) \<Longrightarrow> LF \<notin> set (butlast l)"
  by (induction s arbitrary: l rule: file_lines.induct)
     (auto simp: push_char_def split: if_splits list.splits dest: file_lines_not_Nil)

lemma concat_file_lines: "CR \<notin> set s \<Longrightarrow> concat (file_lines s) = s"
  by (induction s rule: file_lines.induct)
     (auto simp: push_char_def split: if_splits list.splits)

text \<open>
  C10. When the dedupe file does not exist, \<open>load_queried_ids\<close> returns the empty set,
  and the run starts from the empty dedupe set; when it exists, \<open>load_queried_ids\<close>
  returns exactly the set of its lines, each stripped of surrounding whitespace.
\<close>

theorem load_queried_ids_returns_stripped_lines:
  "(fs file_path = None \<longrightarrow> load_queried_ids fs file_path = {}) \<and>
   (\<forall>content. fs file_path = Some content \<longrightarrow>
      load_queried_ids fs file_path = py_strip ` set (file_lines content)) \<and>
   (files w QUERIED_IDS_FILE = None \<longrightarrow>
      main env w =
        emit (LogInfo Completed)
          (snd (locations_loop env LOCATION_IDS {} (emit (LogInfo Starting) w))))"
  by (simp add: load_queried_ids_def main_def emit_def Let_def)

theorem load_queried_ids_returns_stripped_lines_witness:
  "load_queried_ids Map.empty QUERIED_IDS_FILE = {} \<and>
   load_queried_ids [QUERIED_IDS_FILE \<mapsto> ''17'' @ [CR, LF] @ '' 42 '' @ [LF]] QUERIED_IDS_FILE
     = {''17'', ''42''} \<and>
   main sample_env empty_world =
     emit (LogInfo Completed)
       (snd (locations_loop sample_env LOCATION_IDS {} (emit (LogInfo Starting) empty_world)))"
  using load_queried_ids_returns_stripped_lines
      [where fs = Map.empty and file_path = QUERIED_IDS_FILE and w = empty_world
         and env = sample_env]
    load_queried_ids_returns_stripped_lines
      [where fs = "[QUERIED_IDS_FILE \<mapsto> ''17'' @ [CR, LF] @ '' 42 '' @ [LF]]"
         and file_path = QUERIED_IDS_FILE and w = empty_world and env = sample_env]
  by (simp add: push_char_def py_strip_def is_space_def whitespace_def empty_world_def)

end
